theory Spec2Isabelle
  imports Main "HOL-Library.Sublist" "HOL-Library.Monad_Syntax" "HOL-Library.Multiset"
begin

section \<open>The bitbucket-github migrator: a shallow embedding\<close>

text \<open>
  The program reads a list of repository names, and for each one fetches the Bitbucket
  repository, optionally revokes write permissions, clones it, lists its pull requests,
  creates the GitHub repository, pushes the contents, updates settings, and recreates
  the pull requests. Every call that leaves the process (the two REST clients, \<open>git\<close>,
  the operator's program, the file system) is an \<^emph>\<open>event\<close> appended to a trace; what
  the outside answers is a parameter of the model. \<open>log.Fatalf\<close>, \<open>os.Exit\<close> and
  run-time panics end the run and are values of the type \<open>abort\<close>.

  Go strings are byte sequences: \<open>string\<close> (a list of 8-bit characters) is used for
  them, and the functions of package \<open>strings\<close> are defined on bytes, with UTF-8 written
  out where the Go function decodes runes. \<open>fmt.Print*\<close> and \<open>time.Sleep\<close> do not
  change what the program computes or calls and are left out.
\<close>

subsection \<open>Package strings\<close>

text \<open>
  \<open>strings.ReplaceAll(s, old, new)\<close>: the non-overlapping occurrences of \<open>old\<close>, found
  from the left, are replaced. Every call of the program passes a non-empty \<open>old\<close>; for
  an empty one (where Go inserts \<open>new\<close> around every rune) the model returns \<open>s\<close>.
\<close>

function ReplaceAll :: "string \<Rightarrow> string \<Rightarrow> string \<Rightarrow> string" where
  "ReplaceAll s old new =
     (if old = [] \<or> s = [] then s
      else if prefix old s then new @ ReplaceAll (drop (length old) s) old new
      else hd s # ReplaceAll (tl s) old new)"
  by pat_completeness auto
termination
  by (relation "measure (\<lambda>(s, old, new). length s)") auto

declare ReplaceAll.simps [simp del]

text \<open>\<open>strings.Contains(s, substr)\<close>.\<close>

fun Contains :: "string \<Rightarrow> string \<Rightarrow> bool" where
  "Contains [] substr = (substr = [])"
| "Contains (c # cs) substr = (prefix substr (c # cs) \<or> Contains cs substr)"

text \<open>
  \<open>strings.Trim(s, "-")\<close>: with a cutset of one ASCII byte Go strips that byte from
  both ends.
\<close>

definition TrimByte :: "string \<Rightarrow> char \<Rightarrow> string" where
  "TrimByte s c = rev (dropWhile (\<lambda>x. x = c) (rev (dropWhile (\<lambda>x. x = c) s)))"

text \<open>
  \<open>strings.TrimSpace\<close> strips the runes with Unicode's White_Space property from both
  ends. A string starts (ends) with such a rune exactly when it starts (ends) with the
  rune's UTF-8 encoding, so the function is written on bytes, over the encodings of
  U+0009..U+000D, U+0020, U+0085, U+00A0, U+1680, U+2000..U+200A, U+2028, U+2029,
  U+202F, U+205F and U+3000.
\<close>

definition space_encodings :: "string list" where
  "space_encodings =
     [[CHR 0x09], [CHR 0x0A], [CHR 0x0B], [CHR 0x0C], [CHR 0x0D], [CHR 0x20],
      [CHR 0xC2, CHR 0x85], [CHR 0xC2, CHR 0xA0],
      [CHR 0xE1, CHR 0x9A, CHR 0x80],
      [CHR 0xE2, CHR 0x80, CHR 0x80], [CHR 0xE2, CHR 0x80, CHR 0x81],
      [CHR 0xE2, CHR 0x80, CHR 0x82], [CHR 0xE2, CHR 0x80, CHR 0x83],
      [CHR 0xE2, CHR 0x80, CHR 0x84], [CHR 0xE2, CHR 0x80, CHR 0x85],
      [CHR 0xE2, CHR 0x80, CHR 0x86], [CHR 0xE2, CHR 0x80, CHR 0x87],
      [CHR 0xE2, CHR 0x80, CHR 0x88], [CHR 0xE2, CHR 0x80, CHR 0x89],
      [CHR 0xE2, CHR 0x80, CHR 0x8A],
      [CHR 0xE2, CHR 0x80, CHR 0xA8], [CHR 0xE2, CHR 0x80, CHR 0xA9],
      [CHR 0xE2, CHR 0x80, CHR 0xAF],
      [CHR 0xE2, CHR 0x81, CHR 0x9F],
      [CHR 0xE3, CHR 0x80, CHR 0x80]]"

text \<open>Dropping, from the left, every leading occurrence of one of the given byte sequences.\<close>

function dropEncoded :: "string list \<Rightarrow> string \<Rightarrow> string" where
  "dropEncoded encs s =
     (case find (\<lambda>e. e \<noteq> [] \<and> prefix e s) encs of
        None \<Rightarrow> s
      | Some e \<Rightarrow> dropEncoded encs (drop (length e) s))"
  by pat_completeness auto
termination
proof (relation "measure (\<lambda>(encs, s). length s)")
  show "wf (measure (\<lambda>(encs, s). length s))" by simp
next
  fix encs :: "string list" and s e :: string
  assume "find (\<lambda>e. e \<noteq> [] \<and> prefix e s) encs = Some e"
  then have "e \<noteq> []" and "prefix e s"
    by (auto simp: find_Some_iff)
  then have "s \<noteq> []" by auto
  with \<open>e \<noteq> []\<close> show "((encs, drop (length e) s), (encs, s)) \<in> measure (\<lambda>(encs, s). length s)"
    by simp
qed

declare dropEncoded.simps [simp del]

definition TrimSpace :: "string \<Rightarrow> string" where
  "TrimSpace s =
     rev (dropEncoded (map rev space_encodings) (rev (dropEncoded space_encodings s)))"

text \<open>\<open>strings.Split(s, "\n")\<close>: the pieces between the line feeds; one piece for the empty string.\<close>

fun SplitLines :: "string \<Rightarrow> string list" where
  "SplitLines [] = [[]]"
| "SplitLines (c # cs) =
     (if c = CHR 0x0A then [] # SplitLines cs
      else (case SplitLines cs of
              [] \<Rightarrow> [[c]]
            | l # ls \<Rightarrow> (c # l) # ls))"

subsection \<open>Ways the program stops\<close>

datatype abort =
    LogFatal string   \<comment> \<open>\<open>log.Fatalf\<close>, exit status 1; the payload is the first line of the call's format string\<close>
  | OsExit2           \<comment> \<open>\<open>os.Exit(2)\<close> after a usage message\<close>
  | GoPanic           \<comment> \<open>a run-time panic: failed type assertion or nil dereference\<close>

subsection \<open>parseRepos (main.go)\<close>

text \<open>
  The six replacements and the trim of lines 135 to 142, applied to a line that has
  been trimmed of white space and is neither empty nor a comment.
\<close>

definition cleanRepoName :: "string \<Rightarrow> string" where
  "cleanRepoName repo0 =
     (let repo = ReplaceAll repo0 '' '' ''-'';
          repo = ReplaceAll repo ''/'' ''-'';
          repo = ReplaceAll repo ''+'' ''-'';
          repo = ReplaceAll repo ''&'' ''-'';
          repo = ReplaceAll repo ''('' ''-'';
          repo = ReplaceAll repo '')'' ''-''
      in TrimByte repo (CHR ''-''))"

text \<open>The loop of lines 126 to 145: \<open>cleaned\<close> is the slice \<open>cleaned_repos\<close> built so far.\<close>

fun parseRepos_loop :: "string list \<Rightarrow> string list \<Rightarrow> string list" where
  "parseRepos_loop [] cleaned = cleaned"
| "parseRepos_loop (repo0 # repos) cleaned =
     (let repo = TrimSpace repo0 in
      case repo of
        [] \<Rightarrow> parseRepos_loop repos cleaned
      | c # _ \<Rightarrow>
          if c = CHR ''#'' then parseRepos_loop repos cleaned
          else parseRepos_loop repos (cleaned @ [cleanRepoName repo]))"

text \<open>
  \<open>readFile\<close> is \<open>os.ReadFile\<close>: the contents of the file at a path, or \<open>None\<close> when it
  cannot be read.
\<close>

definition parseRepos :: "(string \<Rightarrow> string option) \<Rightarrow> string \<Rightarrow> abort + string list" where
  "parseRepos readFile repoFile =
     (if repoFile = [] then Inl OsExit2
      else case readFile (TrimSpace repoFile) of
             None \<Rightarrow> Inl (LogFatal ''could not read file %s'')
           | Some data \<Rightarrow> Inr (parseRepos_loop (SplitLines data) []))"

text \<open>What one line of the file contributes: nothing, or one identifier.\<close>

definition parseLine :: "string \<Rightarrow> string list" where
  "parseLine line = parseRepos_loop [line] []"

text \<open>
  GitHub accepts in a repository name only ASCII letters, digits, \<open>.\<close>, \<open>-\<close> and \<open>_\<close>.
\<close>

definition github_name_char :: "char \<Rightarrow> bool" where
  "github_name_char c =
     (let n = of_char c :: nat in
      (48 \<le> n \<and> n \<le> 57) \<or> (65 \<le> n \<and> n \<le> 90) \<or> (97 \<le> n \<and> n \<le> 122)
      \<or> c = CHR ''.'' \<or> c = CHR ''-'' \<or> c = CHR ''_'')"

text \<open>The bytes that \<open>parseRepos\<close> replaces by \<open>-\<close>.\<close>

definition replaced_chars :: "char set" where
  "replaced_chars = {CHR '' '', CHR ''/'', CHR ''+'', CHR ''&'', CHR ''('', CHR '')''}"


subsection \<open>More of the Go library\<close>

text \<open>\<open>strconv.Itoa\<close>: the decimal digits of an integer, with a sign when negative.\<close>

function digits :: "nat \<Rightarrow> string" where
  "digits n = (if n < 10 then [char_of (48 + n)] else digits (n div 10) @ [char_of (48 + n mod 10)])"
  by pat_completeness auto
termination
  by (relation "measure id") auto

declare digits.simps [simp del]

definition Itoa :: "int \<Rightarrow> string" where
  "Itoa i = (if i < 0 then ''-'' @ digits (nat (- i)) else digits (nat i))"

text \<open>
  \<open>strings.ToLower\<close>: on a string of ASCII bytes the letters \<open>A\<close> to \<open>Z\<close> are lowered;
  otherwise Go maps \<open>unicode.ToLower\<close> over the runes, which is the parameter
  \<open>unicodeLower\<close> here (the Unicode case tables are not part of the model).
\<close>

definition asciiLower :: "char \<Rightarrow> char" where
  "asciiLower c = (let n = of_char c :: nat in if 65 \<le> n \<and> n \<le> 90 then char_of (n + 32) else c)"

definition isASCII :: "string \<Rightarrow> bool" where
  "isASCII s = list_all (\<lambda>c. (of_char c :: nat) < 128) s"

definition ToLower :: "(string \<Rightarrow> string) \<Rightarrow> string \<Rightarrow> string" where
  "ToLower unicodeLower s = (if isASCII s then map asciiLower s else unicodeLower s)"

text \<open>
  A \<open>time.Time\<close> is the zero time or the instant that \<open>time.Parse\<close> read from a text;
  parsing and printing belong to the environment below.
\<close>

datatype gotime = ZeroTime | ParsedTime string

subsection \<open>Untyped API responses\<close>

text \<open>
  What \<open>encoding/json\<close> decodes into \<open>interface{}\<close>: nil, a bool, a number, a string, a
  slice or a map with string keys. The numbers the program reads (identifiers, counts,
  page sizes) are whole, so \<open>JNum\<close> carries an integer for Go's \<open>float64\<close>; it need
  not fit Go's 64-bit \<open>int\<close>.
\<close>

datatype json =
    JNil
  | JBool bool
  | JNum int
  | JStr string
  | JArr "json list"
  | JObj "(string \<times> json) list"

type_synonym gomap = "(string \<times> json) list"

text \<open>\<open>m[k]\<close> on a \<open>map[string]interface{}\<close>: nil when the key is absent (also on a nil map).\<close>

definition index :: "gomap \<Rightarrow> string \<Rightarrow> json" where
  "index m k = (case map_of m k of None \<Rightarrow> JNil | Some v \<Rightarrow> v)"

text \<open>The unchecked type assertions \<open>x.(string)\<close> and \<open>x.(map[string]any)\<close>: \<open>None\<close> is the panic.\<close>

fun assertString :: "json \<Rightarrow> string option" where
  "assertString (JStr s) = Some s"
| "assertString _ = None"

fun assertMap :: "json \<Rightarrow> gomap option" where
  "assertMap (JObj m) = Some m"
| "assertMap _ = None"

text \<open>The checked assertion \<open>x.(float64)\<close> of \<open>decodePullRequests\<close>, with 0 when it fails.\<close>

fun float64_or_0 :: "json \<Rightarrow> int" where
  "float64_or_0 (JNum n) = n"
| "float64_or_0 _ = 0"

text \<open>
  The conversions \<open>int(x)\<close> and \<open>int64(x)\<close> of a whole \<open>float64\<close>: the value itself when
  it fits in 64 bits. Otherwise Go leaves the result to the implementation; it is the
  parameter \<open>outOfRange\<close> here.
\<close>

definition int_of_float64 :: "(int \<Rightarrow> int) \<Rightarrow> int \<Rightarrow> int" where
  "int_of_float64 outOfRange x =
     (if - (2 ^ 63) \<le> x \<and> x < 2 ^ 63 then x else outOfRange x)"

subsection \<open>The data of the program\<close>

datatype go_error =
    ErrorsNew string      \<comment> \<open>\<open>errors.New(text)\<close>\<close>
  | MapstructureError     \<comment> \<open>an error returned by \<open>mapstructure\<close>; its text is not modelled\<close>

record PRText =
  Raw :: string
  Markup :: string
  HTML :: string

record PRRendered =
  Title :: PRText
  Description :: PRText
  Reason :: PRText

record PRSummary =
  Raw :: string
  Markup :: string
  HTML :: string

record PRMergeCommit =
  Hash :: string

record PullRequest =
  Type :: string
  ID :: int
  Title :: string
  Rendered :: PRRendered
  Summary :: PRSummary
  State :: string
  Author :: gomap
  Source :: gomap
  Destination :: gomap
  MergeCommit :: PRMergeCommit
  CommentCount :: int
  TaskCount :: int
  CloseSourceBranch :: bool
  ClosedBy :: gomap
  Reason :: string
  CreatedOn :: gotime
  UpdatedOn :: gotime
  Reviewers :: "gomap list"
  Participants :: "gomap list"
  Draft :: bool
  Queued :: bool

record PullRequests =
  Size :: int
  Page :: int
  Pagelen :: int
  Next :: string
  Previous :: string
  Values :: "PullRequest list"

text \<open>\<open>bitbucket.BitbucketError\<close> of go-bitbucket, the target of \<open>DecodeError\<close>.\<close>

record BitbucketError =
  Message :: string
  Fields :: "(string \<times> string list) list"

text \<open>The fields of \<open>bitbucket.Repository\<close> that the program reads.\<close>

record bb_Repository =
  Slug :: string
  Description :: string
  Language :: string
  Is_private :: bool
  Mainbranch_Name :: string
  Project_Name :: string

text \<open>
  The fields of \<open>github.Repository\<close>, \<open>github.NewPullRequest\<close> and \<open>github.IssueRequest\<close>
  that the program sets. They are pointers in go-github; the program sets each of them
  to a value before it reads it.
\<close>

record gh_Repository =
  Name :: string
  Visibility :: string
  Description :: string
  DefaultBranch :: string
  Language :: string
  Organization_Name :: string
  Topics :: "string list"

record NewPullRequest =
  Title :: string
  Body :: string
  Head :: string
  Base :: string
  Draft :: bool

record IssueRequest =
  Title :: string
  Body :: string
  Labels :: "string list"
  State :: string

text \<open>
  The two fields of the \<open>github.Issue\<close> answered by \<open>Issues.Create\<close> that the program
  dereferences; \<open>None\<close> is a nil pointer.
\<close>

record gh_Issue =
  Number :: "int option"
  URL :: "string option"

text \<open>
  The configuration (main.go). The fields \<open>runProgram\<close> and \<open>migrateOpenPrs\<close> share
  their names with functions of the program and carry the suffix \<open>_cfg\<close> here.
\<close>

record settings =
  bbWorkspace :: string
  bbUsername :: string
  bbPassword :: string
  revokeOldPerms :: bool
  cloneVia :: string
  ghOrg :: string
  ghUser :: string
  ghOwner :: string
  ghToken :: string
  dryRun :: bool
  overwrite :: bool
  visibility :: string
  runProgram_cfg :: string
  repoFile :: string
  migrateRepoContents :: bool
  migrateRepoSettings :: bool
  migrateOpenPrs_cfg :: bool
  migrateClosedPrs :: bool

subsection \<open>Calls that leave the process\<close>

datatype event =
    BB_Repository_Get string string
      \<comment> \<open>owner, repository slug\<close>
  | BB_ListUserPermissions string string
  | BB_ListGroupPermissions string string
  | BB_SetUserPermissions string string string string
      \<comment> \<open>owner, slug, account id, permission\<close>
  | BB_SetGroupPermissions string string string string
      \<comment> \<open>owner, slug, group slug, permission\<close>
  | BB_PullRequests_Gets string string string string
      \<comment> \<open>owner, slug, destination branch, query\<close>
  | OS_MkdirTemp string
      \<comment> \<open>name pattern\<close>
  | Git_CloneMirror string string
      \<comment> \<open>\<open>git clone --mirror url dir\<close>\<close>
  | Git_RemoteAdd string string string
      \<comment> \<open>working directory, remote name, url\<close>
  | Exec_Program string string
      \<comment> \<open>the operator's program, its argument\<close>
  | Git_PushMirror string string
      \<comment> \<open>working directory, remote name\<close>
  | GH_Repositories_Create string gh_Repository
  | GH_Repositories_Get string string
  | GH_Repositories_Edit string string gh_Repository
  | GH_Repositories_ReplaceAllTopics string string "string list"
  | GH_Repositories_CreateOrUpdateCustomProperties string string "(string \<times> string) list"
  | GH_PullRequests_Create string string NewPullRequest
  | GH_Issues_Create string string IssueRequest
  | GH_Repositories_CreateComment string string string string
      \<comment> \<open>owner, repository, commit hash, comment body\<close>
  | GH_Issues_Edit string string int IssueRequest

text \<open>
  The calls that change something at Bitbucket or GitHub. The clone and the read calls
  do not; adding a remote changes the local clone only; the operator's program is not
  a call of this program to a backend.
\<close>

fun mutating :: "event \<Rightarrow> bool" where
  "mutating (BB_SetUserPermissions _ _ _ _) = True"
| "mutating (BB_SetGroupPermissions _ _ _ _) = True"
| "mutating (Git_PushMirror _ _) = True"
| "mutating (GH_Repositories_Create _ _) = True"
| "mutating (GH_Repositories_Edit _ _ _) = True"
| "mutating (GH_Repositories_ReplaceAllTopics _ _ _) = True"
| "mutating (GH_Repositories_CreateOrUpdateCustomProperties _ _ _) = True"
| "mutating (GH_PullRequests_Create _ _ _) = True"
| "mutating (GH_Issues_Create _ _ _) = True"
| "mutating (GH_Repositories_CreateComment _ _ _ _) = True"
| "mutating (GH_Issues_Edit _ _ _ _) = True"
| "mutating _ = False"

text \<open>
  The environment. Every answer is a function of the trace of calls up to and
  including the call that is answered, so an answer may depend on everything the
  program did before. An error is its \<open>Error()\<close> text.
\<close>

record env =
  unicodeLower :: "string \<Rightarrow> string"
    \<comment> \<open>\<open>strings.Map(unicode.ToLower, s)\<close> for a string with a non-ASCII byte\<close>
  timeParse :: "string \<Rightarrow> bool"
    \<comment> \<open>whether \<open>time.Parse("2006-01-02T15:04:05.000000+00:00", s)\<close> succeeds\<close>
  timeString :: "gotime \<Rightarrow> string"
    \<comment> \<open>\<open>t.String()\<close>, what \<open>%s\<close> prints\<close>
  timeDateTime :: "gotime \<Rightarrow> string"
    \<comment> \<open>\<open>t.Format(time.DateTime)\<close>\<close>
  timeNow :: "event list \<Rightarrow> string"
    \<comment> \<open>\<open>time.Now().Format(time.RFC3339Nano)\<close> at this point of the run\<close>
  int64OutOfRange :: "int \<Rightarrow> int"
    \<comment> \<open>what converting a \<open>float64\<close> outside the 64-bit range to an integer gives\<close>
  sortRearranged :: "PullRequest list \<Rightarrow> PullRequest list"
    \<comment> \<open>how \<open>slices.SortFunc\<close> lays out the records before ties are kept in place\<close>
  bbRepositoryGet :: "event list \<Rightarrow> string + bb_Repository"
  bbListUserPermissions :: "event list \<Rightarrow> string + (string \<times> string) list"
    \<comment> \<open>account id and user name of every entry\<close>
  bbListGroupPermissions :: "event list \<Rightarrow> string + string list"
    \<comment> \<open>group slug of every entry\<close>
  bbSetUserPermissions :: "event list \<Rightarrow> string option"
  bbSetGroupPermissions :: "event list \<Rightarrow> string option"
  bbPullRequestsGets :: "event list \<Rightarrow> string + json"
  osMkdirTemp :: "event list \<Rightarrow> string + string"
  gitCloneMirror :: "event list \<Rightarrow> string option"
  gitRemoteAdd :: "event list \<Rightarrow> string option"
  execProgram :: "event list \<Rightarrow> string option"
  gitPushMirror :: "event list \<Rightarrow> string option"
  ghRepositoriesCreate :: "event list \<Rightarrow> string option"
  ghRepositoriesGet :: "event list \<Rightarrow> bool"
    \<comment> \<open>whether the call returned a repository\<close>
  ghRepositoriesEdit :: "event list \<Rightarrow> string option"
  ghReplaceAllTopics :: "event list \<Rightarrow> string option"
  ghCreateOrUpdateCustomProperties :: "event list \<Rightarrow> string option"
  ghPullRequestsCreate :: "event list \<Rightarrow> string + int"
    \<comment> \<open>the number of the new pull request, which a successful answer is taken to carry\<close>
  ghIssuesCreate :: "event list \<Rightarrow> string + gh_Issue"
  ghCreateComment :: "event list \<Rightarrow> string option"
  ghIssuesEdit :: "event list \<Rightarrow> string option"

text \<open>The result of a stage and the trace after it.\<close>

type_synonym 'a run = "(abort + 'a) \<times> event list"


subsection \<open>The mapstructure decoder\<close>

text \<open>
  The program decodes with \<open>mapstructure\<close> in its default configuration (no weak input,
  no required or unused-key errors) and one hook that parses a string into a
  \<open>time.Time\<close>. What follows is that library's behaviour for the target types of the
  program; \<open>None\<close> stands for the error it returns.

  A struct field takes the value under the key equal to its name (or tag), else under
  a key that \<open>strings.EqualFold\<close> matches; a field with no key, and a nil value, keep the
  zero value without an error. (\<open>EqualFold\<close> is taken on ASCII letters; for a map with
  several matching keys Go's choice depends on the map's iteration order, the model
  takes the first.)
\<close>

definition EqualFold :: "string \<Rightarrow> string \<Rightarrow> bool" where
  "EqualFold s t = (map asciiLower s = map asciiLower t)"

definition fieldValue :: "gomap \<Rightarrow> string \<Rightarrow> json" where
  "fieldValue m name =
     (case map_of m name of
        Some v \<Rightarrow> v
      | None \<Rightarrow>
          (case find (\<lambda>kv. EqualFold (fst kv) name) m of
             Some kv \<Rightarrow> snd kv
           | None \<Rightarrow> JNil))"

fun ms_string :: "json \<Rightarrow> string option" where
  "ms_string JNil = Some []"
| "ms_string (JStr s) = Some s"
| "ms_string _ = None"

fun ms_int :: "env \<Rightarrow> json \<Rightarrow> int option" where
  "ms_int w JNil = Some 0"
| "ms_int w (JNum n) = Some (int_of_float64 (int64OutOfRange w) n)"
| "ms_int w _ = None"

fun ms_bool :: "json \<Rightarrow> bool option" where
  "ms_bool JNil = Some False"
| "ms_bool (JBool b) = Some b"
| "ms_bool _ = None"

text \<open>A \<open>map[string]any\<close> takes every key and value of a map as they are.\<close>

fun ms_map :: "json \<Rightarrow> gomap option" where
  "ms_map JNil = Some []"
| "ms_map (JObj m) = Some m"
| "ms_map _ = None"

fun ms_maps :: "json \<Rightarrow> gomap list option" where
  "ms_maps JNil = Some []"
| "ms_maps (JArr xs) = those (map ms_map xs)"
| "ms_maps _ = None"

fun ms_strings :: "json \<Rightarrow> string list option" where
  "ms_strings JNil = Some []"
| "ms_strings (JArr xs) = those (map ms_string xs)"
| "ms_strings _ = None"

fun ms_string_lists :: "json \<Rightarrow> (string \<times> string list) list option" where
  "ms_string_lists JNil = Some []"
| "ms_string_lists (JObj m) = those (map (\<lambda>kv. map_option (Pair (fst kv)) (ms_strings (snd kv))) m)"
| "ms_string_lists _ = None"

text \<open>
  A string goes through the hook to \<open>time.Parse\<close>. A map is decoded into the struct
  \<open>time.Time\<close>, which has no exported field, so nothing is set.
\<close>

fun ms_time :: "env \<Rightarrow> json \<Rightarrow> gotime option" where
  "ms_time w JNil = Some ZeroTime"
| "ms_time w (JStr s) = (if timeParse w s then Some (ParsedTime s) else None)"
| "ms_time w (JObj m) = Some ZeroTime"
| "ms_time w _ = None"

definition zero_PRText :: PRText where
  "zero_PRText = \<lparr>PRText.Raw = [], Markup = [], HTML = []\<rparr>"

fun ms_PRText :: "json \<Rightarrow> PRText option" where
  "ms_PRText JNil = Some zero_PRText"
| "ms_PRText (JObj m) =
     do {
       raw \<leftarrow> ms_string (fieldValue m ''Raw'');
       markup \<leftarrow> ms_string (fieldValue m ''Markup'');
       html \<leftarrow> ms_string (fieldValue m ''HTML'');
       Some \<lparr>PRText.Raw = raw, Markup = markup, HTML = html\<rparr>
     }"
| "ms_PRText _ = None"

definition zero_PRRendered :: PRRendered where
  "zero_PRRendered =
     \<lparr>PRRendered.Title = zero_PRText, Description = zero_PRText, Reason = zero_PRText\<rparr>"

fun ms_PRRendered :: "json \<Rightarrow> PRRendered option" where
  "ms_PRRendered JNil = Some zero_PRRendered"
| "ms_PRRendered (JObj m) =
     do {
       title \<leftarrow> ms_PRText (fieldValue m ''Title'');
       description \<leftarrow> ms_PRText (fieldValue m ''Description'');
       reason \<leftarrow> ms_PRText (fieldValue m ''Reason'');
       Some \<lparr>PRRendered.Title = title, Description = description, Reason = reason\<rparr>
     }"
| "ms_PRRendered _ = None"

definition zero_PRSummary :: PRSummary where
  "zero_PRSummary = \<lparr>PRSummary.Raw = [], Markup = [], HTML = []\<rparr>"

fun ms_PRSummary :: "json \<Rightarrow> PRSummary option" where
  "ms_PRSummary JNil = Some zero_PRSummary"
| "ms_PRSummary (JObj m) =
     do {
       raw \<leftarrow> ms_string (fieldValue m ''Raw'');
       markup \<leftarrow> ms_string (fieldValue m ''Markup'');
       html \<leftarrow> ms_string (fieldValue m ''HTML'');
       Some \<lparr>PRSummary.Raw = raw, Markup = markup, HTML = html\<rparr>
     }"
| "ms_PRSummary _ = None"

fun ms_PRMergeCommit :: "json \<Rightarrow> PRMergeCommit option" where
  "ms_PRMergeCommit JNil = Some \<lparr>Hash = []\<rparr>"
| "ms_PRMergeCommit (JObj m) =
     do {
       hash \<leftarrow> ms_string (fieldValue m ''Hash'');
       Some \<lparr>Hash = hash\<rparr>
     }"
| "ms_PRMergeCommit _ = None"

text \<open>\<open>decoder.Decode(prMap)\<close> into a new \<open>PullRequest\<close>.\<close>

definition ms_PullRequest :: "env \<Rightarrow> gomap \<Rightarrow> PullRequest option" where
  "ms_PullRequest w m =
     do {
       type \<leftarrow> ms_string (fieldValue m ''Type'');
       id \<leftarrow> ms_int w (fieldValue m ''ID'');
       title \<leftarrow> ms_string (fieldValue m ''Title'');
       rendered \<leftarrow> ms_PRRendered (fieldValue m ''Rendered'');
       summary \<leftarrow> ms_PRSummary (fieldValue m ''Summary'');
       state \<leftarrow> ms_string (fieldValue m ''State'');
       author \<leftarrow> ms_map (fieldValue m ''Author'');
       source \<leftarrow> ms_map (fieldValue m ''Source'');
       destination \<leftarrow> ms_map (fieldValue m ''Destination'');
       mergeCommit \<leftarrow> ms_PRMergeCommit (fieldValue m ''merge_commit'');
       commentCount \<leftarrow> ms_int w (fieldValue m ''comment_count'');
       taskCount \<leftarrow> ms_int w (fieldValue m ''task_count'');
       closeSourceBranch \<leftarrow> ms_bool (fieldValue m ''close_source_branch'');
       closedBy \<leftarrow> ms_map (fieldValue m ''closed_by'');
       reason \<leftarrow> ms_string (fieldValue m ''Reason'');
       createdOn \<leftarrow> ms_time w (fieldValue m ''created_on'');
       updatedOn \<leftarrow> ms_time w (fieldValue m ''updated_on'');
       reviewers \<leftarrow> ms_maps (fieldValue m ''Reviewers'');
       participants \<leftarrow> ms_maps (fieldValue m ''Participants'');
       draft \<leftarrow> ms_bool (fieldValue m ''Draft'');
       queued \<leftarrow> ms_bool (fieldValue m ''Queued'');
       Some \<lparr>Type = type, ID = id, PullRequest.Title = title, Rendered = rendered,
             Summary = summary, State = state, Author = author, Source = source,
             Destination = destination, MergeCommit = mergeCommit,
             CommentCount = commentCount, TaskCount = taskCount,
             CloseSourceBranch = closeSourceBranch, ClosedBy = closedBy,
             Reason = reason, CreatedOn = createdOn, UpdatedOn = updatedOn,
             Reviewers = reviewers, Participants = participants, Draft = draft,
             Queued = queued\<rparr>
     }"

text \<open>\<open>mapstructure.Decode(v, &bitbucketError)\<close>.\<close>

fun ms_BitbucketError :: "json \<Rightarrow> BitbucketError option" where
  "ms_BitbucketError JNil = Some \<lparr>Message = [], Fields = []\<rparr>"
| "ms_BitbucketError (JObj m) =
     do {
       message \<leftarrow> ms_string (fieldValue m ''Message'');
       fields \<leftarrow> ms_string_lists (fieldValue m ''Fields'');
       Some \<lparr>Message = message, Fields = fields\<rparr>
     }"
| "ms_BitbucketError _ = None"

subsection \<open>Decoding the pull-request list\<close>

definition DecodeError :: "gomap \<Rightarrow> go_error" where
  "DecodeError e =
     (case ms_BitbucketError (index e ''error'') of
        None \<Rightarrow> MapstructureError
      | Some bitbucketError \<Rightarrow> ErrorsNew (Message bitbucketError))"

text \<open>
  The three outcomes of the decoding functions: a panic (\<open>Inl\<close>), a returned error
  (\<open>Inr (Inl e)\<close>), a value (\<open>Inr (Inr v)\<close>).
\<close>

definition decodePullRequest :: "env \<Rightarrow> json \<Rightarrow> abort + go_error + PullRequest" where
  "decodePullRequest w response =
     (case assertMap response of
        None \<Rightarrow> Inl GoPanic
      | Some prMap \<Rightarrow>
          if index prMap ''type'' = JStr ''error'' then Inr (Inl (DecodeError prMap))
          else (case ms_PullRequest w prMap of
                  None \<Rightarrow> Inr (Inl MapstructureError)
                | Some pr \<Rightarrow> Inr (Inr pr)))"

text \<open>The loop of \<open>decodePullRequests\<close>; \<open>prs\<close> is the slice built so far.\<close>

fun decodePullRequests_loop ::
  "env \<Rightarrow> json list \<Rightarrow> PullRequest list \<Rightarrow> abort + go_error + PullRequest list" where
  "decodePullRequests_loop w [] prs = Inr (Inr prs)"
| "decodePullRequests_loop w (prEntry # prArray) prs =
     (case decodePullRequest w prEntry of
        Inl p \<Rightarrow> Inl p
      | Inr (Inl err) \<Rightarrow> Inr (Inl err)
      | Inr (Inr pr) \<Rightarrow> decodePullRequests_loop w prArray (prs @ [pr]))"

definition decodePullRequests :: "env \<Rightarrow> json \<Rightarrow> abort + go_error + PullRequests" where
  "decodePullRequests w prsResponse =
     (case prsResponse of
        JObj prResponseMap \<Rightarrow>
          (case index prResponseMap ''values'' of
             JArr prArray \<Rightarrow>
               (case decodePullRequests_loop w prArray [] of
                  Inl p \<Rightarrow> Inl p
                | Inr (Inl err) \<Rightarrow> Inr (Inl err)
                | Inr (Inr prs) \<Rightarrow>
                    let page = float64_or_0 (index prResponseMap ''page'');
                        pagelen = float64_or_0 (index prResponseMap ''pagelen'');
                        size = float64_or_0 (index prResponseMap ''size'')
                    in Inr (Inr \<lparr>Size = int_of_float64 (int64OutOfRange w) size,
                                 Page = int_of_float64 (int64OutOfRange w) page,
                                 Pagelen = int_of_float64 (int64OutOfRange w) pagelen,
                                 Next = [], Previous = [], Values = prs\<rparr>))
           | _ \<Rightarrow> Inl GoPanic)
      | _ \<Rightarrow> Inr (Inl (ErrorsNew ''not a valid format'')))"


subsection \<open>Sequencing\<close>

text \<open>A stage that aborts ends the run; otherwise the next stage starts from its trace.\<close>

definition andThen :: "'a run \<Rightarrow> ('a \<Rightarrow> event list \<Rightarrow> 'b run) \<Rightarrow> 'b run" where
  "andThen r f = (case r of (Inl a, tr) \<Rightarrow> (Inl a, tr) | (Inr x, tr) \<Rightarrow> f x tr)"

subsection \<open>The Bitbucket side\<close>

definition getRepo :: "env \<Rightarrow> string \<Rightarrow> string \<Rightarrow> event list \<Rightarrow> bb_Repository run" where
  "getRepo w owner repoName tr =
     (let tr1 = tr @ [BB_Repository_Get owner repoName] in
      case bbRepositoryGet w tr1 of
        Inl err \<Rightarrow> (Inl (LogFatal ''Failed to get repo from bitbucket: %v''), tr1)
      | Inr repo \<Rightarrow> (Inr repo, tr1))"

definition cloneRepo :: "env \<Rightarrow> string \<Rightarrow> settings \<Rightarrow> event list \<Rightarrow> string run" where
  "cloneRepo w repo config tr =
     (let tr1 = tr @ [OS_MkdirTemp (bbWorkspace config @ ''-'' @ repo @ ''-*'')] in
      case osMkdirTemp w tr1 of
        Inl err \<Rightarrow> (Inl (LogFatal ''Failed to create temp directory: %s''), tr1)
      | Inr tempDir \<Rightarrow>
          let cloneURL =
                (if ToLower (unicodeLower w) (cloneVia config) = ''ssh''
                 then ''git@bitbucket.org:'' @ bbWorkspace config @ ''/'' @ repo @ ''.git''
                 else ''https://bitbucket.org/'' @ bbWorkspace config @ ''/'' @ repo @ ''.git'');
              tr2 = tr1 @ [Git_CloneMirror cloneURL tempDir]
          in case gitCloneMirror w tr2 of
               Some err \<Rightarrow> (Inl (LogFatal ''Failed to clone repository: %s''), tr2)
             | None \<Rightarrow> (Inr tempDir, tr2))"

text \<open>The two loops of \<open>updatePermissionsToReadOnly\<close>.\<close>

fun setUserPermissions_loop ::
  "env \<Rightarrow> string \<Rightarrow> string \<Rightarrow> (string \<times> string) list \<Rightarrow> event list \<Rightarrow> unit run" where
  "setUserPermissions_loop w owner repoName [] tr = (Inr (), tr)"
| "setUserPermissions_loop w owner repoName (user # users) tr =
     (let tr1 = tr @ [BB_SetUserPermissions owner repoName (fst user) ''read''] in
      case bbSetUserPermissions w tr1 of
        Some err \<Rightarrow> (Inl (LogFatal ''Failed to update user permission for %s: %v''), tr1)
      | None \<Rightarrow> setUserPermissions_loop w owner repoName users tr1)"

fun setGroupPermissions_loop ::
  "env \<Rightarrow> string \<Rightarrow> string \<Rightarrow> string list \<Rightarrow> event list \<Rightarrow> unit run" where
  "setGroupPermissions_loop w owner repoName [] tr = (Inr (), tr)"
| "setGroupPermissions_loop w owner repoName (groupSlug # groups) tr =
     (let tr1 = tr @ [BB_SetGroupPermissions owner repoName groupSlug ''read''] in
      case bbSetGroupPermissions w tr1 of
        Some err \<Rightarrow> (Inl (LogFatal ''Failed to update group permission for %s: %v''), tr1)
      | None \<Rightarrow> setGroupPermissions_loop w owner repoName groups tr1)"

definition updatePermissionsToReadOnly ::
  "env \<Rightarrow> string \<Rightarrow> string \<Rightarrow> bool \<Rightarrow> event list \<Rightarrow> unit run" where
  "updatePermissionsToReadOnly w owner repoName dryRun' tr =
     (let tr1 = tr @ [BB_ListUserPermissions owner repoName] in
      case bbListUserPermissions w tr1 of
        Inl err \<Rightarrow> (Inl (LogFatal ''Failed to get user permissions: %v''), tr1)
      | Inr user_perms \<Rightarrow>
          let tr2 = tr1 @ [BB_ListGroupPermissions owner repoName] in
          case bbListGroupPermissions w tr2 of
            Inl err \<Rightarrow> (Inl (LogFatal ''Failed to get group permissions: %v''), tr2)
          | Inr group_perms \<Rightarrow>
              if dryRun' then (Inr (), tr2)
              else andThen (setUserPermissions_loop w owner repoName user_perms tr2)
                     (\<lambda>_. setGroupPermissions_loop w owner repoName group_perms))"

text \<open>
  \<open>slices.SortFunc\<close> with \<open>cmp.Compare\<close> on the identifiers puts the records in
  non-decreasing order of identifier. The sort is not stable: among records of equal
  identifier the order is the library's choice. Every such result is the stable sort
  of some rearrangement of the records; the rearrangement is the environment's
  \<open>sortRearranged\<close> (left aside where it does not return the same records).
\<close>

definition slices_SortFunc_ID ::
  "(PullRequest list \<Rightarrow> PullRequest list) \<Rightarrow> PullRequest list \<Rightarrow> PullRequest list" where
  "slices_SortFunc_ID rearranged xs =
     (let ys = rearranged xs in sort_key ID (if mset ys = mset xs then ys else xs))"

definition getPrs ::
  "env \<Rightarrow> string \<Rightarrow> string \<Rightarrow> string \<Rightarrow> event list \<Rightarrow> PullRequests run" where
  "getPrs w owner repo destinationBranch tr =
     (let query = ''state IN ('' @ [CHR 0x22] @ ''MERGED'' @ [CHR 0x22] @ '', ''
                    @ [CHR 0x22] @ ''OPEN'' @ [CHR 0x22] @ '')'';
          tr1 = tr @ [BB_PullRequests_Gets owner repo destinationBranch query] in
      case bbPullRequestsGets w tr1 of
        Inl err \<Rightarrow> (Inl (LogFatal ''Failed to get PRs: %v''), tr1)
      | Inr response \<Rightarrow>
          (case decodePullRequests w response of
             Inl p \<Rightarrow> (Inl p, tr1)
           | Inr (Inl err) \<Rightarrow> (Inl (LogFatal ''Error decoding PRs: %v''), tr1)
           | Inr (Inr prs) \<Rightarrow> (Inr (prs\<lparr>Values := slices_SortFunc_ID (sortRearranged w) (Values prs)\<rparr>), tr1)))"

subsection \<open>The GitHub side\<close>

definition cleanTopic :: "env \<Rightarrow> string \<Rightarrow> string" where
  "cleanTopic w input = ReplaceAll (ToLower (unicodeLower w) input) '' '' ''-''"

text \<open>Lines 22 to 38 of \<open>createRepo\<close>: the descriptor \<open>ghRepo\<close>.\<close>

definition createRepo_ghRepo :: "env \<Rightarrow> bb_Repository \<Rightarrow> settings \<Rightarrow> gh_Repository" where
  "createRepo_ghRepo w repo config =
     (let visibility' = (if Is_private repo then visibility config else ''public'') in
      \<lparr>Name = Slug repo,
       Visibility = visibility',
       gh_Repository.Description = bb_Repository.Description repo,
       DefaultBranch = Mainbranch_Name repo,
       gh_Repository.Language = bb_Repository.Language repo,
       Organization_Name = ghOrg config,
       Topics = [''migratedFromBitbucket'', cleanTopic w (Project_Name repo)]\<rparr>)"

text \<open>The wait loop of \<open>createRepo\<close>; the counter is the number of attempts left.\<close>

fun createRepo_wait ::
  "env \<Rightarrow> string \<Rightarrow> string \<Rightarrow> gh_Repository \<Rightarrow> nat \<Rightarrow> event list \<Rightarrow> gh_Repository run" where
  "createRepo_wait w owner slug ghRepo 0 tr =
     (Inl (LogFatal ''Repo has still not been created''), tr)"
| "createRepo_wait w owner slug ghRepo (Suc n) tr =
     (let tr1 = tr @ [GH_Repositories_Get owner slug] in
      if ghRepositoriesGet w tr1 then (Inr ghRepo, tr1)
      else createRepo_wait w owner slug ghRepo n tr1)"

definition createRepo ::
  "env \<Rightarrow> bb_Repository \<Rightarrow> settings \<Rightarrow> event list \<Rightarrow> gh_Repository run" where
  "createRepo w repo config tr =
     (let ghRepo = createRepo_ghRepo w repo config in
      if dryRun config then (Inr ghRepo, tr)
      else
        let tr1 = tr @ [GH_Repositories_Create (ghOrg config) ghRepo] in
        case ghRepositoriesCreate w tr1 of
          None \<Rightarrow> createRepo_wait w (ghOwner config) (Slug repo) ghRepo 20 tr1
        | Some err \<Rightarrow>
            if Contains err ''name already exists on this account'' then
              (if \<not> overwrite config
               then (Inl (LogFatal ''Refusing to overwrite Github repo %s''), tr1)
               else createRepo_wait w (ghOwner config) (Slug repo) ghRepo 20 tr1)
            else (Inl (LogFatal ''failed to create repo %s, error: %s''), tr1))"

definition updateRepoTopics ::
  "env \<Rightarrow> string \<Rightarrow> gh_Repository \<Rightarrow> bool \<Rightarrow> event list \<Rightarrow> unit run" where
  "updateRepoTopics w githubOwner ghRepo dryRun' tr =
     (if dryRun' then (Inr (), tr)
      else
        let tr1 = tr @ [GH_Repositories_ReplaceAllTopics githubOwner (Name ghRepo) (Topics ghRepo)] in
        case ghReplaceAllTopics w tr1 of
          Some err \<Rightarrow> (Inl (LogFatal ''failed to update topics for repo %s, error: %s''), tr1)
        | None \<Rightarrow> (Inr (), tr1))"

text \<open>The result of the call in the last line is not bound: the answer is never read.\<close>

definition updateCustomProperties ::
  "env \<Rightarrow> string \<Rightarrow> gh_Repository \<Rightarrow> bool \<Rightarrow> string \<Rightarrow> event list \<Rightarrow> unit run" where
  "updateCustomProperties w githubOrg ghRepo dryRun' projectName tr =
     (if githubOrg = [] then (Inr (), tr)
      else
        let customProps = [(''bitbucket'', ''true''), (''project'', cleanTopic w projectName)] in
        if dryRun' then (Inr (), tr)
        else (Inr (),
              tr @ [GH_Repositories_CreateOrUpdateCustomProperties githubOrg (Name ghRepo) customProps]))"

definition updateRepo ::
  "env \<Rightarrow> string \<Rightarrow> gh_Repository \<Rightarrow> bool \<Rightarrow> event list \<Rightarrow> unit run" where
  "updateRepo w githubOwner ghRepo dryRun' tr =
     (if dryRun' then (Inr (), tr)
      else
        let tr1 = tr @ [GH_Repositories_Edit githubOwner (Name ghRepo) ghRepo] in
        case ghRepositoriesEdit w tr1 of
          Some err \<Rightarrow> (Inl (LogFatal ''failed to update repo %s, error: %s''), tr1)
        | None \<Rightarrow> (Inr (), tr1))"

definition cleanBitbucketPRSummary :: "string \<Rightarrow> string" where
  "cleanBitbucketPRSummary prSummary0 =
     (let prSummary =
            ReplaceAll prSummary0 (''{: data-inline-card='' @ [CHR 0x27, CHR 0x27] @ '' }'') [];
          prSummary = ReplaceAll prSummary [CHR 0xE2, CHR 0x80, CHR 0x8C] []
      in prSummary)"

text \<open>
  \<open>pr.Source["branch"].(map[string]any)["name"].(string)\<close>, and \<open>m["display_name"].(string)\<close>:
  \<open>None\<close> when an assertion panics.
\<close>

definition sourceBranchName :: "gomap \<Rightarrow> string option" where
  "sourceBranchName source =
     (case assertMap (index source ''branch'') of
        None \<Rightarrow> None
      | Some branch \<Rightarrow> assertString (index branch ''name''))"

definition displayName :: "gomap \<Rightarrow> string option" where
  "displayName m = assertString (index m ''display_name'')"

text \<open>
  Lines 134 to 145 of \<open>migrateOpenPrs\<close>: the request built for an open record, \<open>None\<close>
  when building it panics.
\<close>

definition migrateOpenPrs_request ::
  "env \<Rightarrow> gh_Repository \<Rightarrow> PullRequest \<Rightarrow> event list \<Rightarrow> NewPullRequest option" where
  "migrateOpenPrs_request w ghRepo pr tr =
     (let prID = Itoa (ID pr);
          prSummary = cleanBitbucketPRSummary (PRSummary.Raw (Summary pr)) in
      case displayName (Author pr) of
        None \<Rightarrow> None
      | Some author \<Rightarrow>
          let text = ''PR originally created by '' @ author @ '' on '' @ timeString w (CreatedOn pr)
                       @ ''. Migrated from bitbucket on '' @ timeNow w tr
                       @ [CHR 0x0A, CHR 0x0A] @ ''---'' @ [CHR 0x0A] @ prSummary;
              title = ''Historical Bitbucket PR #'' @ prID @ '': '' @ PullRequest.Title pr in
          case sourceBranchName (Source pr) of
            None \<Rightarrow> None
          | Some branch \<Rightarrow>
              Some \<lparr>NewPullRequest.Title = title, Body = text, Head = branch,
                    Base = DefaultBranch ghRepo, NewPullRequest.Draft = PullRequest.Draft pr\<rparr>)"

definition already_exists :: string where
  "already_exists = ''A pull request already exists''"

definition head_invalid :: string where
  "head_invalid =
     ''422 Validation Failed [{Resource:PullRequest Field:head Code:invalid Message:}]''"

fun migrateOpenPrs_loop ::
  "env \<Rightarrow> string \<Rightarrow> gh_Repository \<Rightarrow> PullRequest list \<Rightarrow> bool \<Rightarrow> event list \<Rightarrow> unit run" where
  "migrateOpenPrs_loop w githubOwner ghRepo [] dryRun' tr = (Inr (), tr)"
| "migrateOpenPrs_loop w githubOwner ghRepo (pr # prs) dryRun' tr =
     (if PullRequest.State pr \<noteq> ''OPEN'' then migrateOpenPrs_loop w githubOwner ghRepo prs dryRun' tr
      else
        case migrateOpenPrs_request w ghRepo pr tr of
          None \<Rightarrow> (Inl GoPanic, tr)
        | Some gh_pr \<Rightarrow>
            if dryRun' then (Inr (), tr)
            else
              let tr1 = tr @ [GH_PullRequests_Create githubOwner (Name ghRepo) gh_pr] in
              case ghPullRequestsCreate w tr1 of
                Inl err \<Rightarrow>
                  if Contains err already_exists
                  then migrateOpenPrs_loop w githubOwner ghRepo prs dryRun' tr1
                  else if Contains err head_invalid
                  then migrateOpenPrs_loop w githubOwner ghRepo prs dryRun' tr1
                  else (Inl (LogFatal ''failed to create PR %s, error: %s''), tr1)
              | Inr number \<Rightarrow> migrateOpenPrs_loop w githubOwner ghRepo prs dryRun' tr1)"

definition migrateOpenPrs ::
  "env \<Rightarrow> string \<Rightarrow> gh_Repository \<Rightarrow> PullRequests \<Rightarrow> bool \<Rightarrow> event list \<Rightarrow> unit run" where
  "migrateOpenPrs w githubOwner ghRepo prs dryRun' tr =
     migrateOpenPrs_loop w githubOwner ghRepo (Values prs) dryRun' tr"

text \<open>
  Lines 173 to 190 of \<open>createClosedPrs\<close>: the issue built for a merged record, \<open>None\<close>
  when building it panics.
\<close>

definition createClosedPrs_issue :: "env \<Rightarrow> PullRequest \<Rightarrow> IssueRequest option" where
  "createClosedPrs_issue w pr =
     (case displayName (Author pr) of
        None \<Rightarrow> None
      | Some author \<Rightarrow>
          let prSummary = cleanBitbucketPRSummary (PRSummary.Raw (Summary pr)) in
          case sourceBranchName (Source pr) of
            None \<Rightarrow> None
          | Some branch \<Rightarrow>
              (case displayName (ClosedBy pr) of
                 None \<Rightarrow> None
               | Some mergedBy \<Rightarrow>
                   let creationTime = timeDateTime w (CreatedOn pr);
                       title = ''Historical Bitbucket PR #'' @ Itoa (ID pr) @ '': ''
                                 @ PullRequest.Title pr;
                       text = ''**Bitbucket PR created from branch '' @ branch @ '' on ''
                                @ creationTime @ '' by '' @ author @ ''. Merged by '' @ mergedBy
                                @ ''**'' @ [CHR 0x0A, CHR 0x0A] @ ''---'' @ [CHR 0x0A] @ prSummary
                   in Some \<lparr>IssueRequest.Title = title, Body = text,
                            Labels = [''bitbucketPR''], IssueRequest.State = ''closed''\<rparr>))"

fun createClosedPrs_loop ::
  "env \<Rightarrow> string \<Rightarrow> gh_Repository \<Rightarrow> PullRequest list \<Rightarrow> bool \<Rightarrow> event list \<Rightarrow> unit run" where
  "createClosedPrs_loop w githubOwner ghRepo [] dryRun' tr = (Inr (), tr)"
| "createClosedPrs_loop w githubOwner ghRepo (pr # prs) dryRun' tr =
     (if PullRequest.State pr \<noteq> ''MERGED'' then createClosedPrs_loop w githubOwner ghRepo prs dryRun' tr
      else
        case createClosedPrs_issue w pr of
          None \<Rightarrow> (Inl GoPanic, tr)
        | Some issue \<Rightarrow>
            if dryRun' then (Inr (), tr)
            else
              let tr1 = tr @ [GH_Issues_Create githubOwner (Name ghRepo) issue] in
              case ghIssuesCreate w tr1 of
                Inl err \<Rightarrow> (Inl (LogFatal ''failed to create issue for PR %d, error: %s''), tr1)
              | Inr issueResponse \<Rightarrow>
                  let commitHash = Hash (MergeCommit pr) in
                  case Number issueResponse of
                    None \<Rightarrow> (Inl GoPanic, tr1)
                  | Some number \<Rightarrow>
                      let comment = ''Bitbucket PR details: #'' @ Itoa number;
                          tr2 = tr1 @ [GH_Repositories_CreateComment githubOwner (Name ghRepo)
                                         commitHash comment] in
                      case ghCreateComment w tr2 of
                        Some err \<Rightarrow> (Inl (LogFatal ''failed to comment on commit %s: %s''), tr2)
                      | None \<Rightarrow>
                          let tr3 = tr2 @ [GH_Issues_Edit githubOwner (Name ghRepo) number issue] in
                          case ghIssuesEdit w tr3 of
                            Some err \<Rightarrow>
                              (case URL issueResponse of
                                 None \<Rightarrow> (Inl GoPanic, tr3)
                               | Some url \<Rightarrow> (Inl (LogFatal ''failed to close issue %s: %s''), tr3))
                          | None \<Rightarrow> createClosedPrs_loop w githubOwner ghRepo prs dryRun' tr3)"

definition createClosedPrs ::
  "env \<Rightarrow> string \<Rightarrow> gh_Repository \<Rightarrow> PullRequests \<Rightarrow> bool \<Rightarrow> event list \<Rightarrow> unit run" where
  "createClosedPrs w githubOwner ghRepo prs dryRun' tr =
     createClosedPrs_loop w githubOwner ghRepo (Values prs) dryRun' tr"

text \<open>\<open>runProgram\<close> returns the error of the program, if it ran and failed.\<close>

definition runProgram :: "env \<Rightarrow> string \<Rightarrow> string \<Rightarrow> event list \<Rightarrow> string option \<times> event list" where
  "runProgram w repoFolder program tr =
     (if program \<noteq> ''noop'' then
        (let tr1 = tr @ [Exec_Program program repoFolder] in (execProgram w tr1, tr1))
      else (None, tr))"

definition pushRepoToGithub ::
  "env \<Rightarrow> string \<Rightarrow> string \<Rightarrow> settings \<Rightarrow> event list \<Rightarrow> unit run" where
  "pushRepoToGithub w repoFolder repoName config tr =
     (let newOrigin = ''newOrigin'';
          tr1 = tr @ [Git_RemoteAdd repoFolder newOrigin
                        (''https://github.com/'' @ ghOwner config @ ''/'' @ repoName @ ''.git'')] in
      case gitRemoteAdd w tr1 of
        Some err \<Rightarrow> (Inl (LogFatal ''Failed to add new git origin: %s''), tr1)
      | None \<Rightarrow>
          (case runProgram w repoFolder (runProgram_cfg config) tr1 of
             (Some err, tr2) \<Rightarrow> (Inl (LogFatal ''Failed to run custom program %s. err: %s''), tr2)
           | (None, tr2) \<Rightarrow>
               if dryRun config then (Inr (), tr2)
               else
                 let tr3 = tr2 @ [Git_PushMirror repoFolder newOrigin] in
                 case gitPushMirror w tr3 of
                   Some err \<Rightarrow> (Inl (LogFatal ''Failed to push: %s''), tr3)
                 | None \<Rightarrow> (Inr (), tr3)))"

subsection \<open>The orchestration (main.go)\<close>

text \<open>
  \<open>prs\<close> is a pointer that stays nil when neither pull-request stage is enabled; reading
  through a nil pointer would panic.
\<close>

definition migrateRepo :: "env \<Rightarrow> string \<Rightarrow> settings \<Rightarrow> event list \<Rightarrow> unit run" where
  "migrateRepo w repoName config tr =
     andThen (getRepo w (bbWorkspace config) repoName tr) (\<lambda>bbRepo tr.
     andThen (if revokeOldPerms config
              then updatePermissionsToReadOnly w (bbWorkspace config) repoName (dryRun config) tr
              else (Inr (), tr)) (\<lambda>_ tr.
     andThen (if migrateRepoContents config then cloneRepo w repoName config tr
              else (Inr [], tr)) (\<lambda>repoFolder tr.
     andThen (if migrateOpenPrs_cfg config \<or> migrateClosedPrs config
              then andThen (getPrs w (bbWorkspace config) repoName (Mainbranch_Name bbRepo) tr)
                     (\<lambda>prs tr. (Inr (Some prs), tr))
              else (Inr None, tr)) (\<lambda>prs tr.
     andThen (createRepo w bbRepo config tr) (\<lambda>ghRepo tr.
     andThen (if migrateRepoContents config then pushRepoToGithub w repoFolder repoName config tr
              else (Inr (), tr)) (\<lambda>_ tr.
     andThen (if migrateRepoSettings config
              then andThen (updateRepo w (ghOwner config) ghRepo (dryRun config) tr) (\<lambda>_ tr.
                   andThen (updateRepoTopics w (ghOwner config) ghRepo (dryRun config) tr) (\<lambda>_ tr.
                   updateCustomProperties w (ghOwner config) ghRepo (dryRun config)
                     (Project_Name bbRepo) tr))
              else (Inr (), tr)) (\<lambda>_ tr.
     andThen (if migrateOpenPrs_cfg config
              then (case prs of
                      None \<Rightarrow> (Inl GoPanic, tr)
                    | Some prs \<Rightarrow> migrateOpenPrs w (ghOwner config) ghRepo prs (dryRun config) tr)
              else (Inr (), tr)) (\<lambda>_ tr.
     (if migrateClosedPrs config
      then (case prs of
              None \<Rightarrow> (Inl GoPanic, tr)
            | Some prs \<Rightarrow> createClosedPrs w (ghOwner config) ghRepo prs (dryRun config) tr)
      else (Inr (), tr))))))))))"

fun migrateRepos :: "env \<Rightarrow> string list \<Rightarrow> settings \<Rightarrow> event list \<Rightarrow> unit run" where
  "migrateRepos w [] config tr = (Inr (), tr)"
| "migrateRepos w (repo # repoList) config tr =
     andThen (migrateRepo w repo config tr) (\<lambda>_. migrateRepos w repoList config)"


subsection \<open>Sample inputs\<close>

text \<open>
  Concrete values at which the theorems below are instantiated: a private repository,
  a configuration with every stage enabled, a pull-request list with an open record
  after a merged one of higher identifier, and an environment in which every call
  succeeds.
\<close>

definition zero_PullRequest :: PullRequest where
  "zero_PullRequest =
     \<lparr>Type = [], ID = 0, PullRequest.Title = [], Rendered = zero_PRRendered,
      Summary = zero_PRSummary, State = [], Author = [], Source = [], Destination = [],
      MergeCommit = \<lparr>Hash = []\<rparr>, CommentCount = 0, TaskCount = 0,
      CloseSourceBranch = False, ClosedBy = [], Reason = [], CreatedOn = ZeroTime,
      UpdatedOn = ZeroTime, Reviewers = [], Participants = [], Draft = False,
      Queued = False\<rparr>"

definition sample_repo :: bb_Repository where
  "sample_repo =
     \<lparr>Slug = ''tools'', bb_Repository.Description = ''Build tools'',
      bb_Repository.Language = ''go'', Is_private = True, Mainbranch_Name = ''main'',
      Project_Name = ''My Project''\<rparr>"

definition sample_config :: settings where
  "sample_config =
     \<lparr>bbWorkspace = ''acme'', bbUsername = ''bot'', bbPassword = ''secret'',
      revokeOldPerms = True, cloneVia = ''ssh'', ghOrg = ''acme-org'', ghUser = [],
      ghOwner = ''acme-org'', ghToken = ''token'', dryRun = False, overwrite = False,
      visibility = ''internal'', runProgram_cfg = ''noop'', repoFile = ''repos.txt'',
      migrateRepoContents = True, migrateRepoSettings = True, migrateOpenPrs_cfg = True,
      migrateClosedPrs = True\<rparr>"

definition sample_open :: json where
  "sample_open =
     JObj [(''id'', JNum 1), (''title'', JStr ''Add linter''), (''state'', JStr ''OPEN''),
           (''author'', JObj [(''display_name'', JStr ''Ann'')]),
           (''source'', JObj [(''branch'', JObj [(''name'', JStr ''lint'')])])]"

definition sample_merged :: json where
  "sample_merged =
     JObj [(''id'', JNum 2), (''title'', JStr ''Fix build''), (''state'', JStr ''MERGED''),
           (''author'', JObj [(''display_name'', JStr ''Bob'')]),
           (''source'', JObj [(''branch'', JObj [(''name'', JStr ''fix'')])]),
           (''closed_by'', JObj [(''display_name'', JStr ''Ann'')]),
           (''merge_commit'', JObj [(''hash'', JStr ''abc123'')])]"

definition sample_response :: json where
  "sample_response = JObj [(''values'', JArr [sample_merged, sample_open])]"

definition sample_env :: env where
  "sample_env =
     \<lparr>unicodeLower = (\<lambda>s. s),
      timeParse = (\<lambda>s. True),
      timeString = (\<lambda>t. ''0001-01-01 00:00:00 +0000 UTC''),
      timeDateTime = (\<lambda>t. ''0001-01-01 00:00:00''),
      timeNow = (\<lambda>tr. ''2025-01-01T00:00:00Z''),
      int64OutOfRange = (\<lambda>x. - (2 ^ 63)),
      sortRearranged = rev,
      bbRepositoryGet = (\<lambda>tr. Inr sample_repo),
      bbListUserPermissions = (\<lambda>tr. Inr [(''u1'', ''ann'')]),
      bbListGroupPermissions = (\<lambda>tr. Inr [''devs'']),
      bbSetUserPermissions = (\<lambda>tr. None),
      bbSetGroupPermissions = (\<lambda>tr. None),
      bbPullRequestsGets = (\<lambda>tr. Inr sample_response),
      osMkdirTemp = (\<lambda>tr. Inr ''/tmp/acme-tools-1''),
      gitCloneMirror = (\<lambda>tr. None),
      gitRemoteAdd = (\<lambda>tr. None),
      execProgram = (\<lambda>tr. None),
      gitPushMirror = (\<lambda>tr. None),
      ghRepositoriesCreate = (\<lambda>tr. None),
      ghRepositoriesGet = (\<lambda>tr. True),
      ghRepositoriesEdit = (\<lambda>tr. None),
      ghReplaceAllTopics = (\<lambda>tr. None),
      ghCreateOrUpdateCustomProperties = (\<lambda>tr. None),
      ghPullRequestsCreate = (\<lambda>tr. Inr 7),
      ghIssuesCreate =
        (\<lambda>tr. Inr \<lparr>Number = Some 8,
                       URL = Some ''https://api.github.com/repos/acme-org/tools/issues/8''\<rparr>),
      ghCreateComment = (\<lambda>tr. None),
      ghIssuesEdit = (\<lambda>tr. None)\<rparr>"

subsection \<open>Notions used in the statements\<close>

text \<open>The mutating calls of a trace.\<close>

definition mutations :: "event list \<Rightarrow> event list" where
  "mutations tr = filter mutating tr"


text \<open>The keys that building the request of an open record reads are present.\<close>

definition keysPresent :: "PullRequest \<Rightarrow> bool" where
  "keysPresent pr = (displayName (Author pr) \<noteq> None \<and> sourceBranchName (Source pr) \<noteq> None)"

text \<open>The keys that building the issue of a merged record reads are present.\<close>

definition closedKeysPresent :: "PullRequest \<Rightarrow> bool" where
  "closedKeysPresent pr =
     (displayName (Author pr) \<noteq> None \<and> sourceBranchName (Source pr) \<noteq> None
      \<and> displayName (ClosedBy pr) \<noteq> None)"

text \<open>
  \<open>migrateRepo\<close> with its two passes as parameters: the body of \<open>migrateRepo\<close>, with
  \<open>openPass\<close> for \<open>migrateOpenPrs\<close> and \<open>closedPass\<close> for \<open>createClosedPrs\<close>.
\<close>

type_synonym pass =
  "env \<Rightarrow> string \<Rightarrow> gh_Repository \<Rightarrow> PullRequests \<Rightarrow> bool \<Rightarrow> event list \<Rightarrow> unit run"

definition migrateRepo_with ::
  "pass \<Rightarrow> pass \<Rightarrow> env \<Rightarrow> string \<Rightarrow> settings \<Rightarrow> event list \<Rightarrow> unit run" where
  "migrateRepo_with openPass closedPass w repoName config tr =
     andThen (getRepo w (bbWorkspace config) repoName tr) (\<lambda>bbRepo tr.
     andThen (if revokeOldPerms config
              then updatePermissionsToReadOnly w (bbWorkspace config) repoName (dryRun config) tr
              else (Inr (), tr)) (\<lambda>_ tr.
     andThen (if migrateRepoContents config then cloneRepo w repoName config tr
              else (Inr [], tr)) (\<lambda>repoFolder tr.
     andThen (if migrateOpenPrs_cfg config \<or> migrateClosedPrs config
              then andThen (getPrs w (bbWorkspace config) repoName (Mainbranch_Name bbRepo) tr)
                     (\<lambda>prs tr. (Inr (Some prs), tr))
              else (Inr None, tr)) (\<lambda>prs tr.
     andThen (createRepo w bbRepo config tr) (\<lambda>ghRepo tr.
     andThen (if migrateRepoContents config then pushRepoToGithub w repoFolder repoName config tr
              else (Inr (), tr)) (\<lambda>_ tr.
     andThen (if migrateRepoSettings config
              then andThen (updateRepo w (ghOwner config) ghRepo (dryRun config) tr) (\<lambda>_ tr.
                   andThen (updateRepoTopics w (ghOwner config) ghRepo (dryRun config) tr) (\<lambda>_ tr.
                   updateCustomProperties w (ghOwner config) ghRepo (dryRun config)
                     (Project_Name bbRepo) tr))
              else (Inr (), tr)) (\<lambda>_ tr.
     andThen (if migrateOpenPrs_cfg config
              then (case prs of
                      None \<Rightarrow> (Inl GoPanic, tr)
                    | Some prs \<Rightarrow> openPass w (ghOwner config) ghRepo prs (dryRun config) tr)
              else (Inr (), tr)) (\<lambda>_ tr.
     (if migrateClosedPrs config
      then (case prs of
              None \<Rightarrow> (Inl GoPanic, tr)
            | Some prs \<Rightarrow> closedPass w (ghOwner config) ghRepo prs (dryRun config) tr)
      else (Inr (), tr))))))))))"

text \<open>A pass that panics when it is handed records that are not in order of identifier.\<close>

definition sortedOnly :: "pass \<Rightarrow> pass" where
  "sortedOnly pass w githubOwner ghRepo prs d tr =
     (if sorted (map ID (Values prs)) then pass w githubOwner ghRepo prs d tr
      else (Inl GoPanic, tr))"

text \<open>
  The title that both passes give to the artifact of a record, and the titles of the
  pull requests and of the issues whose creation a trace holds, in the order of the
  calls.
\<close>

definition historical_title :: "PullRequest \<Rightarrow> string" where
  "historical_title pr =
     ''Historical Bitbucket PR #'' @ Itoa (ID pr) @ '': '' @ PullRequest.Title pr"

fun created_pr_title :: "event \<Rightarrow> string list" where
  "created_pr_title (GH_PullRequests_Create _ _ r) = [NewPullRequest.Title r]"
| "created_pr_title _ = []"

fun created_issue_title :: "event \<Rightarrow> string list" where
  "created_issue_title (GH_Issues_Create _ _ r) = [IssueRequest.Title r]"
| "created_issue_title _ = []"

definition created_pr_titles :: "event list \<Rightarrow> string list" where
  "created_pr_titles tr = concat (map created_pr_title tr)"

definition created_issue_titles :: "event list \<Rightarrow> string list" where
  "created_issue_titles tr = concat (map created_issue_title tr)"

fun is_map :: "json \<Rightarrow> bool" where
  "is_map (JObj m) = True"
| "is_map _ = False"

text \<open>More sample values: the records that \<open>sample_response\<close> decodes to, and an error entry.\<close>

definition sample_open_pr :: PullRequest where
  "sample_open_pr =
     zero_PullRequest\<lparr>ID := 1, PullRequest.Title := ''Add linter'', PullRequest.State := ''OPEN'',
       Author := [(''display_name'', JStr ''Ann'')],
       Source := [(''branch'', JObj [(''name'', JStr ''lint'')])]\<rparr>"

definition sample_merged_pr :: PullRequest where
  "sample_merged_pr =
     zero_PullRequest\<lparr>ID := 2, PullRequest.Title := ''Fix build'', PullRequest.State := ''MERGED'',
       Author := [(''display_name'', JStr ''Bob'')],
       Source := [(''branch'', JObj [(''name'', JStr ''fix'')])],
       MergeCommit := \<lparr>Hash = ''abc123''\<rparr>,
       ClosedBy := [(''display_name'', JStr ''Ann'')]\<rparr>"

definition sample_prs :: PullRequests where
  "sample_prs = \<lparr>Size = 0, Page = 0, Pagelen = 0, Next = [], Previous = [],
                  Values = [sample_open_pr, sample_merged_pr]\<rparr>"

definition sample_ghRepo :: gh_Repository where
  "sample_ghRepo = createRepo_ghRepo sample_env sample_repo sample_config"

definition sample_error :: json where
  "sample_error =
     JObj [(''type'', JStr ''error''),
           (''error'', JObj [(''message'', JStr ''Repository not found'')])]"




section \<open>Properties\<close>

subsection \<open>Facts about the string functions\<close>

lemma ReplaceAll_byte: "ReplaceAll s [a] [b] = map (\<lambda>c. if c = a then b else c) s"
proof (induction s)
  case Nil
  show ?case by (simp add: ReplaceAll.simps)
next
  case (Cons x xs)
  show ?case using Cons by (subst ReplaceAll.simps) auto
qed

lemma set_TrimByte: "set (TrimByte s c) \<subseteq> set s"
  by (auto simp: TrimByte_def dest!: set_dropWhileD)

lemma dropWhile_head: "dropWhile P xs = y # ys \<Longrightarrow> \<not> P y"
  using hd_dropWhile [of P xs] by simp

lemma rev_dropWhile_rev_prefix: "\<exists>u. xs = rev (dropWhile P (rev xs)) @ u"
proof
  have "rev (takeWhile P (rev xs) @ dropWhile P (rev xs)) = xs"
    by (simp only: takeWhile_dropWhile_id rev_rev_ident)
  then show "xs = rev (dropWhile P (rev xs)) @ rev (takeWhile P (rev xs))"
    by (simp only: rev_append)
qed

lemma TrimByte_no_prefix: "\<not> prefix [c] (TrimByte s c)"
proof
  assume "prefix [c] (TrimByte s c)"
  then obtain r where r: "TrimByte s c = c # r"
    by (cases "TrimByte s c") simp_all
  obtain u where "dropWhile (\<lambda>x. x = c) s = TrimByte s c @ u"
    unfolding TrimByte_def using rev_dropWhile_rev_prefix by blast
  then have "dropWhile (\<lambda>x. x = c) s = c # (r @ u)"
    by (simp only: r append_Cons)
  then have "c \<noteq> c" by (rule dropWhile_head)
  then show False by simp
qed

lemma TrimByte_no_suffix: "\<not> suffix [c] (TrimByte s c)"
proof
  assume "suffix [c] (TrimByte s c)"
  then obtain r where "TrimByte s c = r @ [c]"
    unfolding suffix_def by blast
  then have "rev (TrimByte s c) = c # rev r" by simp
  then have "dropWhile (\<lambda>x. x = c) (rev (dropWhile (\<lambda>x. x = c) s)) = c # rev r"
    by (simp only: TrimByte_def rev_rev_ident)
  then have "c \<noteq> c" by (rule dropWhile_head)
  then show False by simp
qed

lemma TrimByte_id:
  assumes "\<not> prefix [c] s" "\<not> suffix [c] s"
  shows "TrimByte s c = s"
proof -
  have 1: "dropWhile (\<lambda>x. x = c) s = s"
    using assms(1) by (cases s) auto
  have 2: "dropWhile (\<lambda>x. x = c) (rev s) = rev s"
    using assms(2) by (cases s rule: rev_cases) (auto simp: suffix_def)
  show ?thesis by (simp add: TrimByte_def 1 2)
qed

lemma takeWhile_replicate:
  "takeWhile (\<lambda>x. x = c) xs = replicate (length (takeWhile (\<lambda>x. x = c) xs)) c"
  by (induction xs) auto

lemma TrimByte_decomposition:
  "\<exists>i j. s = replicate i c @ TrimByte s c @ replicate j c"
proof -
  let ?P = "\<lambda>x. x = c"
  let ?d = "dropWhile ?P s"
  have 1: "s = takeWhile ?P s @ ?d" by simp
  have "rev (takeWhile ?P (rev ?d) @ dropWhile ?P (rev ?d)) = ?d"
    by (simp only: takeWhile_dropWhile_id rev_rev_ident)
  then have 2: "?d = TrimByte s c @ rev (takeWhile ?P (rev ?d))"
    by (simp only: rev_append TrimByte_def)
  have 3: "rev (takeWhile ?P (rev ?d)) = replicate (length (takeWhile ?P (rev ?d))) c"
    by (subst takeWhile_replicate) simp
  have "s = replicate (length (takeWhile ?P s)) c @ TrimByte s c
              @ replicate (length (takeWhile ?P (rev ?d))) c"
    using 1 2 3 takeWhile_replicate [of c s] by metis
  then show ?thesis by blast
qed

lemma cleanRepoName_map:
  "cleanRepoName s
     = TrimByte (map (\<lambda>c. if c \<in> replaced_chars then CHR ''-'' else c) s) (CHR ''-'')"
proof -
  have "map (\<lambda>c. if c = CHR '')'' then CHR ''-'' else c)
         (map (\<lambda>c. if c = CHR ''('' then CHR ''-'' else c)
         (map (\<lambda>c. if c = CHR ''&'' then CHR ''-'' else c)
         (map (\<lambda>c. if c = CHR ''+'' then CHR ''-'' else c)
         (map (\<lambda>c. if c = CHR ''/'' then CHR ''-'' else c)
         (map (\<lambda>c. if c = CHR '' '' then CHR ''-'' else c) s)))))
        = map (\<lambda>c. if c \<in> replaced_chars then CHR ''-'' else c) s"
    by (induction s) (auto simp: replaced_chars_def)
  then show ?thesis
    unfolding cleanRepoName_def Let_def ReplaceAll_byte by (rule arg_cong)
qed

lemma cleanRepoName_chars: "set (cleanRepoName s) \<inter> replaced_chars = {}"
proof -
  have "set (cleanRepoName s)
          \<subseteq> set (map (\<lambda>c. if c \<in> replaced_chars then CHR ''-'' else c) s)"
    unfolding cleanRepoName_map by (rule set_TrimByte)
  moreover have "CHR ''-'' \<notin> replaced_chars" by (simp add: replaced_chars_def)
  ultimately show ?thesis by auto
qed

lemma cleanRepoName_id:
  assumes "set s \<inter> replaced_chars = {}" "\<not> prefix ''-'' s" "\<not> suffix ''-'' s"
  shows "cleanRepoName s = s"
proof -
  have "map (\<lambda>c. if c \<in> replaced_chars then CHR ''-'' else c) s = s"
    using assms(1) by (induction s) auto
  then show ?thesis using assms(2,3) by (simp add: cleanRepoName_map TrimByte_id)
qed

lemma cleanRepoName_idem: "cleanRepoName (cleanRepoName s) = cleanRepoName s"
  by (rule cleanRepoName_id)
    (simp add: cleanRepoName_chars,
     simp_all add: cleanRepoName_map TrimByte_no_prefix TrimByte_no_suffix)

lemma parseLine_eq:
  "parseLine line =
     (if TrimSpace line = [] \<or> prefix ''#'' (TrimSpace line) then []
      else [cleanRepoName (TrimSpace line)])"
  by (cases "TrimSpace line") (auto simp: parseLine_def Let_def)

lemma parseRepos_loop_eq:
  "parseRepos_loop ls cleaned = cleaned @ concat (map parseLine ls)"
  by (induction ls arbitrary: cleaned) (auto simp: parseLine_def Let_def split: list.splits)

lemmas parse_eval =
  parseLine_eq TrimSpace_def dropEncoded.simps space_encodings_def cleanRepoName_map
  TrimByte_def replaced_chars_def

lemmas char_eval = char_of_def bit_Suc_0_iff asciiLower_def EqualFold_def

lemma cleanTopic_eq:
  "cleanTopic w name
     = map (\<lambda>c. if c = CHR '' '' then CHR ''-'' else c) (ToLower (unicodeLower w) name)"
  by (simp add: cleanTopic_def ReplaceAll_byte)

subsection \<open>Stages that add no mutating call\<close>

lemma andThen_quiet:
  assumes "mutations (snd r) = M"
    and "\<And>x tr. mutations (snd (f x tr)) = mutations tr"
  shows "mutations (snd (andThen r f)) = M"
  using assms by (cases r) (auto simp: andThen_def split: sum.splits)

lemma getRepo_quiet: "mutations (snd (getRepo w owner repoName tr)) = mutations tr"
  by (simp add: getRepo_def mutations_def Let_def split: sum.splits)

lemma cloneRepo_quiet: "mutations (snd (cloneRepo w repo config tr)) = mutations tr"
  by (simp add: cloneRepo_def mutations_def Let_def split: sum.splits option.splits)

lemma updatePermissionsToReadOnly_quiet:
  "mutations (snd (updatePermissionsToReadOnly w owner repoName True tr)) = mutations tr"
  by (simp add: updatePermissionsToReadOnly_def mutations_def Let_def split: sum.splits)

lemma getPrs_quiet: "mutations (snd (getPrs w owner repo branch tr)) = mutations tr"
  by (simp add: getPrs_def mutations_def Let_def split: sum.splits)

lemma createRepo_quiet:
  "dryRun config \<Longrightarrow> mutations (snd (createRepo w repo config tr)) = mutations tr"
  by (simp add: createRepo_def Let_def)

lemma runProgram_quiet: "mutations (snd (runProgram w repoFolder program tr)) = mutations tr"
  by (simp add: runProgram_def mutations_def Let_def)

lemma pushRepoToGithub_quiet:
  "dryRun config \<Longrightarrow>
     mutations (snd (pushRepoToGithub w repoFolder repoName config tr)) = mutations tr"
  using runProgram_quiet [of w repoFolder "runProgram_cfg config"
      "tr @ [Git_RemoteAdd repoFolder ''newOrigin''
               (''https://github.com/'' @ ghOwner config @ ''/'' @ repoName @ ''.git'')]"]
  by (auto simp: pushRepoToGithub_def mutations_def Let_def split: option.splits prod.splits)

lemma updateRepo_quiet: "mutations (snd (updateRepo w owner ghRepo True tr)) = mutations tr"
  by (simp add: updateRepo_def)

lemma updateRepoTopics_quiet:
  "mutations (snd (updateRepoTopics w owner ghRepo True tr)) = mutations tr"
  by (simp add: updateRepoTopics_def)

lemma updateCustomProperties_quiet:
  "mutations (snd (updateCustomProperties w org ghRepo True projectName tr)) = mutations tr"
  by (simp add: updateCustomProperties_def)

lemma migrateOpenPrs_loop_dry:
  "snd (migrateOpenPrs_loop w owner ghRepo prs True tr) = tr"
  by (induction prs) (auto split: option.splits)

lemma createClosedPrs_loop_dry:
  "snd (createClosedPrs_loop w owner ghRepo prs True tr) = tr"
  by (induction prs) (auto split: option.splits)

lemma migrateRepo_quiet:
  assumes "dryRun config"
  shows "mutations (snd (migrateRepo w repoName config tr)) = mutations tr"
  unfolding migrateRepo_def
  by (intro andThen_quiet)
     (simp_all add: assms getRepo_quiet cloneRepo_quiet updatePermissionsToReadOnly_quiet
        getPrs_quiet createRepo_quiet pushRepoToGithub_quiet updateRepo_quiet
        updateRepoTopics_quiet updateCustomProperties_quiet migrateOpenPrs_loop_dry
        createClosedPrs_loop_dry migrateOpenPrs_def createClosedPrs_def andThen_quiet
        split: option.splits)

lemma migrateRepos_quiet:
  assumes "dryRun config"
  shows "mutations (snd (migrateRepos w repoList config tr)) = mutations tr"
proof (induction repoList arbitrary: tr)
  case Nil
  show ?case by simp
next
  case (Cons repo repoList)
  show ?case
    by (simp only: migrateRepos.simps)
       (rule andThen_quiet, rule migrateRepo_quiet [OF assms], rule Cons.IH)
qed

subsection \<open>What \<open>createRepo\<close> returns\<close>

lemma createRepo_wait_returns:
  "createRepo_wait w owner slug ghRepo n tr = (Inr g, tr') \<Longrightarrow> g = ghRepo"
  by (induction n arbitrary: tr) (auto simp: Let_def split: if_splits)

lemma createRepo_returns:
  "createRepo w repo config tr = (Inr g, tr') \<Longrightarrow> g = createRepo_ghRepo w repo config"
  by (auto simp: createRepo_def Let_def split: if_splits option.splits
      dest: createRepo_wait_returns)

subsection \<open>Decoding and the two passes\<close>

lemma decode_not_map:
  "\<not> is_map prsResponse \<Longrightarrow>
     decodePullRequests w prsResponse = Inr (Inl (ErrorsNew ''not a valid format''))"
  by (cases prsResponse) (simp_all add: decodePullRequests_def)

lemma decode_copies_maps:
  "decodePullRequest w
     (JObj [(''state'', JStr st), (''author'', JObj a), (''source'', JObj src),
            (''closed_by'', JObj cb)])
    = Inr (Inr (zero_PullRequest\<lparr>PullRequest.State := st, Author := a, Source := src,
                                  ClosedBy := cb\<rparr>))"
  by (simp add: decodePullRequest_def index_def ms_PullRequest_def fieldValue_def char_eval
      zero_PullRequest_def zero_PRRendered_def zero_PRSummary_def zero_PRText_def)

lemma open_request_None:
  "displayName (Author pr) = None \<or> sourceBranchName (Source pr) = None
     \<Longrightarrow> migrateOpenPrs_request w g pr tr = None"
  by (auto simp: migrateOpenPrs_request_def Let_def split: option.splits)

lemma closed_issue_None:
  "displayName (Author pr) = None \<or> sourceBranchName (Source pr) = None
     \<or> displayName (ClosedBy pr) = None
     \<Longrightarrow> createClosedPrs_issue w pr = None"
  by (auto simp: createClosedPrs_issue_def Let_def split: option.splits)

lemma open_request_None_iff:
  "migrateOpenPrs_request w g pr tr = None \<longleftrightarrow> \<not> keysPresent pr"
  by (auto simp: keysPresent_def migrateOpenPrs_request_def Let_def split: option.splits)

lemma closed_issue_None_iff:
  "createClosedPrs_issue w pr = None \<longleftrightarrow> \<not> closedKeysPresent pr"
  by (auto simp: closedKeysPresent_def createClosedPrs_issue_def Let_def split: option.splits)



lemma open_loop_skip:
  "\<forall>p \<in> set pre. PullRequest.State p \<noteq> ''OPEN'' \<Longrightarrow>
     migrateOpenPrs_loop w owner g (pre @ prs) d tr = migrateOpenPrs_loop w owner g prs d tr"
  by (induction pre) simp_all

lemma closed_loop_skip:
  "\<forall>p \<in> set pre. PullRequest.State p \<noteq> ''MERGED'' \<Longrightarrow>
     createClosedPrs_loop w owner g (pre @ prs) d tr = createClosedPrs_loop w owner g prs d tr"
  by (induction pre) simp_all

subsection \<open>No stage reads the answer to the custom-property call\<close>

lemma cleanTopic_answer [simp]:
  "cleanTopic (w\<lparr>ghCreateOrUpdateCustomProperties := a\<rparr>) s = cleanTopic w s"
  by (simp add: cleanTopic_def)

lemma getRepo_answer [simp]:
  "getRepo (w\<lparr>ghCreateOrUpdateCustomProperties := a\<rparr>) = getRepo w"
  by (intro ext) (auto simp: getRepo_def Let_def split: sum.splits option.splits json.splits prod.splits)

lemma cloneRepo_answer [simp]:
  "cloneRepo (w\<lparr>ghCreateOrUpdateCustomProperties := a\<rparr>) = cloneRepo w"
  by (intro ext) (auto simp: cloneRepo_def Let_def split: sum.splits option.splits json.splits prod.splits)

lemma setUserPermissions_loop_answer':
  "setUserPermissions_loop (w\<lparr>ghCreateOrUpdateCustomProperties := a\<rparr>) owner repoName users tr
     = setUserPermissions_loop w owner repoName users tr"
  by (induction users arbitrary: tr) (simp_all add: Let_def split: option.splits)

lemma setUserPermissions_loop_answer [simp]:
  "setUserPermissions_loop (w\<lparr>ghCreateOrUpdateCustomProperties := a\<rparr>) = setUserPermissions_loop w"
  by (intro ext) (rule setUserPermissions_loop_answer')

lemma setGroupPermissions_loop_answer':
  "setGroupPermissions_loop (w\<lparr>ghCreateOrUpdateCustomProperties := a\<rparr>) owner repoName groups tr
     = setGroupPermissions_loop w owner repoName groups tr"
  by (induction groups arbitrary: tr) (simp_all add: Let_def split: option.splits)

lemma setGroupPermissions_loop_answer [simp]:
  "setGroupPermissions_loop (w\<lparr>ghCreateOrUpdateCustomProperties := a\<rparr>) = setGroupPermissions_loop w"
  by (intro ext) (rule setGroupPermissions_loop_answer')

lemma updatePermissionsToReadOnly_answer [simp]:
  "updatePermissionsToReadOnly (w\<lparr>ghCreateOrUpdateCustomProperties := a\<rparr>) = updatePermissionsToReadOnly w"
  by (intro ext) (auto simp: updatePermissionsToReadOnly_def Let_def split: sum.splits option.splits json.splits prod.splits)

lemma ms_int_answer [simp]:
  "ms_int (w\<lparr>ghCreateOrUpdateCustomProperties := a\<rparr>) v = ms_int w v"
  by (cases v) simp_all

lemma ms_time_answer [simp]:
  "ms_time (w\<lparr>ghCreateOrUpdateCustomProperties := a\<rparr>) v = ms_time w v"
  by (cases v) simp_all

lemma decodePullRequest_answer [simp]:
  "decodePullRequest (w\<lparr>ghCreateOrUpdateCustomProperties := a\<rparr>) = decodePullRequest w"
  by (intro ext) (auto simp: decodePullRequest_def ms_PullRequest_def Let_def split: sum.splits option.splits json.splits prod.splits)

lemma decodePullRequests_loop_answer':
  "decodePullRequests_loop (w\<lparr>ghCreateOrUpdateCustomProperties := a\<rparr>) es prs
     = decodePullRequests_loop w es prs"
  by (induction es arbitrary: prs) (simp_all split: sum.splits)

lemma decodePullRequests_loop_answer [simp]:
  "decodePullRequests_loop (w\<lparr>ghCreateOrUpdateCustomProperties := a\<rparr>) = decodePullRequests_loop w"
  by (intro ext) (rule decodePullRequests_loop_answer')

lemma getPrs_answer [simp]:
  "getPrs (w\<lparr>ghCreateOrUpdateCustomProperties := a\<rparr>) = getPrs w"
  by (intro ext) (auto simp: getPrs_def decodePullRequests_def Let_def split: sum.splits option.splits json.splits prod.splits)

lemma createRepo_wait_answer':
  "createRepo_wait (w\<lparr>ghCreateOrUpdateCustomProperties := a\<rparr>) owner slug g n tr
     = createRepo_wait w owner slug g n tr"
  by (induction n arbitrary: tr) (simp_all add: Let_def)

lemma createRepo_wait_answer [simp]:
  "createRepo_wait (w\<lparr>ghCreateOrUpdateCustomProperties := a\<rparr>) = createRepo_wait w"
  by (intro ext) (rule createRepo_wait_answer')

lemma createRepo_answer [simp]:
  "createRepo (w\<lparr>ghCreateOrUpdateCustomProperties := a\<rparr>) = createRepo w"
  by (intro ext) (auto simp: createRepo_def createRepo_ghRepo_def Let_def split: sum.splits option.splits json.splits prod.splits)

lemma pushRepoToGithub_answer [simp]:
  "pushRepoToGithub (w\<lparr>ghCreateOrUpdateCustomProperties := a\<rparr>) = pushRepoToGithub w"
  by (intro ext) (auto simp: pushRepoToGithub_def runProgram_def Let_def split: sum.splits option.splits json.splits prod.splits)

lemma updateRepo_answer [simp]:
  "updateRepo (w\<lparr>ghCreateOrUpdateCustomProperties := a\<rparr>) = updateRepo w"
  by (intro ext) (auto simp: updateRepo_def Let_def split: sum.splits option.splits json.splits prod.splits)

lemma updateRepoTopics_answer [simp]:
  "updateRepoTopics (w\<lparr>ghCreateOrUpdateCustomProperties := a\<rparr>) = updateRepoTopics w"
  by (intro ext) (auto simp: updateRepoTopics_def Let_def split: sum.splits option.splits json.splits prod.splits)

lemma updateCustomProperties_answer [simp]:
  "updateCustomProperties (w\<lparr>ghCreateOrUpdateCustomProperties := a\<rparr>) = updateCustomProperties w"
  by (intro ext) (auto simp: updateCustomProperties_def Let_def split: sum.splits option.splits json.splits prod.splits)

lemma migrateOpenPrs_request_answer [simp]:
  "migrateOpenPrs_request (w\<lparr>ghCreateOrUpdateCustomProperties := a\<rparr>) = migrateOpenPrs_request w"
  by (intro ext) (auto simp: migrateOpenPrs_request_def Let_def split: sum.splits option.splits json.splits prod.splits)

lemma migrateOpenPrs_loop_answer':
  "migrateOpenPrs_loop (w\<lparr>ghCreateOrUpdateCustomProperties := a\<rparr>) owner g prs d tr
     = migrateOpenPrs_loop w owner g prs d tr"
  by (induction prs arbitrary: tr) (auto simp: Let_def split: option.splits sum.splits)

lemma migrateOpenPrs_loop_answer [simp]:
  "migrateOpenPrs_loop (w\<lparr>ghCreateOrUpdateCustomProperties := a\<rparr>) = migrateOpenPrs_loop w"
  by (intro ext) (rule migrateOpenPrs_loop_answer')

lemma createClosedPrs_issue_answer [simp]:
  "createClosedPrs_issue (w\<lparr>ghCreateOrUpdateCustomProperties := a\<rparr>) = createClosedPrs_issue w"
  by (intro ext) (auto simp: createClosedPrs_issue_def Let_def split: sum.splits option.splits json.splits prod.splits)

lemma createClosedPrs_loop_answer':
  "createClosedPrs_loop (w\<lparr>ghCreateOrUpdateCustomProperties := a\<rparr>) owner g prs d tr
     = createClosedPrs_loop w owner g prs d tr"
  by (induction prs arbitrary: tr) (auto simp: Let_def split: option.splits sum.splits)

lemma createClosedPrs_loop_answer [simp]:
  "createClosedPrs_loop (w\<lparr>ghCreateOrUpdateCustomProperties := a\<rparr>) = createClosedPrs_loop w"
  by (intro ext) (rule createClosedPrs_loop_answer')

lemma migrateRepo_answer [simp]:
  "migrateRepo (w\<lparr>ghCreateOrUpdateCustomProperties := a\<rparr>) = migrateRepo w"
  by (intro ext) (simp add: migrateRepo_def migrateOpenPrs_def createClosedPrs_def cong: if_cong option.case_cong)

lemma migrateRepos_answer:
  "migrateRepos (w\<lparr>ghCreateOrUpdateCustomProperties := a\<rparr>) repoList config
     = migrateRepos w repoList config"
proof (induction repoList)
  case Nil
  show ?case by (intro ext) simp
next
  case (Cons repo repoList)
  show ?case by (intro ext) (simp add: Cons.IH)
qed

subsection \<open>The order of the records and of the calls\<close>

lemma sorted_SortFunc: "sorted (map ID (slices_SortFunc_ID rearranged xs))"
  by (simp add: slices_SortFunc_ID_def Let_def)

lemma mset_SortFunc: "mset (slices_SortFunc_ID rearranged xs) = mset xs"
  by (simp add: slices_SortFunc_ID_def Let_def)

lemma SortFunc_any_order:
  "sorted (map ID ys) \<Longrightarrow> mset ys = mset xs \<Longrightarrow> slices_SortFunc_ID (\<lambda>_. ys) xs = ys"
  by (simp add: slices_SortFunc_ID_def Let_def sort_key_id_if_sorted)

lemma getPrs_returns:
  assumes "getPrs w owner repo destinationBranch tr = (Inr prs, tr')"
  shows "sorted (map ID (Values prs))
     \<and> (\<exists>response decoded.
           bbPullRequestsGets w tr' = Inr response
         \<and> decodePullRequests w response = Inr (Inr decoded)
         \<and> mset (Values prs) = mset (Values decoded))"
  using assms
  by (auto simp: getPrs_def Let_def sorted_SortFunc mset_SortFunc split: sum.splits)

lemma andThen_cong_run:
  "(\<And>x tr'. r = (Inr x, tr') \<Longrightarrow> f x tr' = g x tr') \<Longrightarrow> andThen r f = andThen r g"
  by (cases r) (auto simp: andThen_def split: sum.splits)

lemma prs_stage_sorted:
  assumes "(if b then andThen (getPrs w owner repo branch tr) (\<lambda>prs tr. (Inr (Some prs), tr))
            else (Inr None, tr)) = (Inr (Some p), tr')"
  shows "sorted (map ID (Values p))"
proof -
  from assms obtain tr'' where "getPrs w owner repo branch tr = (Inr p, tr'')"
    by (cases "getPrs w owner repo branch tr")
       (auto simp: andThen_def split: if_splits sum.splits)
  then show ?thesis using getPrs_returns by blast
qed

lemma sortedOnly_sorted:
  "sorted (map ID (Values p)) \<Longrightarrow> sortedOnly pass w githubOwner ghRepo p d = pass w githubOwner ghRepo p d"
  by (intro ext) (simp add: sortedOnly_def)

lemma migrateRepo_is_with:
  "migrateRepo = migrateRepo_with migrateOpenPrs createClosedPrs"
  by (intro ext) (simp add: migrateRepo_def migrateRepo_with_def)

lemma migrateRepo_with_sortedOnly:
  "migrateRepo_with openPass closedPass w repoName config tr
     = migrateRepo_with (sortedOnly openPass) (sortedOnly closedPass) w repoName config tr"
  unfolding migrateRepo_with_def
proof (intro andThen_cong_run, goal_cases)
  case (1 bbRepo tr1 u2 tr2 repoFolder tr3 prs tr4 ghRepo tr5 u6 tr6 u7 tr7)
  show ?case
  proof (cases prs)
    case None
    then show ?thesis by (simp cong: if_cong)
  next
    case (Some p)
    with 1(4) have "sorted (map ID (Values p))"
      by (auto dest: prs_stage_sorted)
    with Some show ?thesis by (simp add: sortedOnly_sorted cong: if_cong)
  qed
qed

lemma created_pr_titles_append [simp]:
  "created_pr_titles (xs @ ys) = created_pr_titles xs @ created_pr_titles ys"
  by (simp add: created_pr_titles_def)

lemma created_issue_titles_append [simp]:
  "created_issue_titles (xs @ ys) = created_issue_titles xs @ created_issue_titles ys"
  by (simp add: created_issue_titles_def)

lemma request_title:
  "migrateOpenPrs_request w g pr tr = Some req \<Longrightarrow> NewPullRequest.Title req = historical_title pr"
  by (auto simp: migrateOpenPrs_request_def historical_title_def Let_def split: option.splits)

lemma issue_title:
  "createClosedPrs_issue w pr = Some issue \<Longrightarrow> IssueRequest.Title issue = historical_title pr"
  by (auto simp: createClosedPrs_issue_def historical_title_def Let_def split: option.splits)

lemma open_loop_step:
  assumes "PullRequest.State pr = ''OPEN''" and "migrateOpenPrs_request w g pr tr = Some req"
  shows "migrateOpenPrs_loop w owner g (pr # prs) d tr = (Inr (), tr)
       \<or> migrateOpenPrs_loop w owner g (pr # prs) d tr
           = (Inl (LogFatal ''failed to create PR %s, error: %s''),
              tr @ [GH_PullRequests_Create owner (Name g) req])
       \<or> migrateOpenPrs_loop w owner g (pr # prs) d tr
           = migrateOpenPrs_loop w owner g prs d (tr @ [GH_PullRequests_Create owner (Name g) req])"
  using assms by (auto simp: Let_def split: sum.splits)

lemma open_loop_order:
  "\<exists>k. created_pr_titles (snd (migrateOpenPrs_loop w owner g prs d tr))
        = created_pr_titles tr
          @ map historical_title (take k (filter (\<lambda>pr. PullRequest.State pr = ''OPEN'') prs))"
proof (induction prs arbitrary: tr)
  case Nil
  show ?case by simp
next
  case (Cons pr prs)
  show ?case
  proof (cases "PullRequest.State pr = ''OPEN''")
    case False
    with Cons [of tr] show ?thesis by simp
  next
    case True
    note open_pr = True
    show ?thesis
    proof (cases "migrateOpenPrs_request w g pr tr")
      case None
      with open_pr have "snd (migrateOpenPrs_loop w owner g (pr # prs) d tr) = tr" by simp
      then show ?thesis by (intro exI [of _ 0]) simp
    next
      case (Some req)
      let ?tr1 = "tr @ [GH_PullRequests_Create owner (Name g) req]"
      have t1: "created_pr_titles ?tr1 = created_pr_titles tr @ [historical_title pr]"
        using request_title [OF Some] by (simp add: created_pr_titles_def)
      from open_loop_step [OF open_pr Some, of owner prs d]
      consider (stop) "migrateOpenPrs_loop w owner g (pr # prs) d tr = (Inr (), tr)"
        | (fatal) "migrateOpenPrs_loop w owner g (pr # prs) d tr
                     = (Inl (LogFatal ''failed to create PR %s, error: %s''), ?tr1)"
        | (go) "migrateOpenPrs_loop w owner g (pr # prs) d tr
                  = migrateOpenPrs_loop w owner g prs d ?tr1"
        by blast
      then show ?thesis
      proof cases
        case stop
        show ?thesis unfolding stop by (intro exI [of _ 0]) simp
      next
        case fatal
        show ?thesis unfolding fatal using open_pr t1 by (intro exI [of _ 1]) simp
      next
        case go
        from Cons [of ?tr1] obtain k where
          "created_pr_titles (snd (migrateOpenPrs_loop w owner g prs d ?tr1))
            = created_pr_titles ?tr1
              @ map historical_title (take k (filter (\<lambda>pr. PullRequest.State pr = ''OPEN'') prs))"
          by blast
        then show ?thesis unfolding go using open_pr t1 by (intro exI [of _ "Suc k"]) simp
      qed
    qed
  qed
qed

lemma closed_loop_step:
  assumes "PullRequest.State pr = ''MERGED''" and "createClosedPrs_issue w pr = Some issue"
  shows "createClosedPrs_loop w owner g (pr # prs) d tr = (Inr (), tr)
       \<or> (\<exists>a tr'. createClosedPrs_loop w owner g (pr # prs) d tr = (Inl a, tr')
              \<and> created_issue_titles tr'
                  = created_issue_titles tr @ [IssueRequest.Title issue])
       \<or> (\<exists>tr'. createClosedPrs_loop w owner g (pr # prs) d tr
                  = createClosedPrs_loop w owner g prs d tr'
              \<and> created_issue_titles tr'
                  = created_issue_titles tr @ [IssueRequest.Title issue])"
  using assms
  by (auto simp: Let_def created_issue_titles_def split: sum.splits option.splits)

lemma closed_loop_order:
  "\<exists>k. created_issue_titles (snd (createClosedPrs_loop w owner g prs d tr))
        = created_issue_titles tr
          @ map historical_title (take k (filter (\<lambda>pr. PullRequest.State pr = ''MERGED'') prs))"
proof (induction prs arbitrary: tr)
  case Nil
  show ?case by simp
next
  case (Cons pr prs)
  show ?case
  proof (cases "PullRequest.State pr = ''MERGED''")
    case False
    with Cons [of tr] show ?thesis by simp
  next
    case True
    note merged_pr = True
    show ?thesis
    proof (cases "createClosedPrs_issue w pr")
      case None
      with merged_pr have "snd (createClosedPrs_loop w owner g (pr # prs) d tr) = tr" by simp
      then show ?thesis by (intro exI [of _ 0]) simp
    next
      case (Some issue)
      have t: "IssueRequest.Title issue = historical_title pr"
        using Some by (rule issue_title)
      from closed_loop_step [OF merged_pr Some, of owner g prs d tr]
      consider (stop) "createClosedPrs_loop w owner g (pr # prs) d tr = (Inr (), tr)"
        | (fatal) a tr' where "createClosedPrs_loop w owner g (pr # prs) d tr = (Inl a, tr')"
            "created_issue_titles tr' = created_issue_titles tr @ [historical_title pr]"
        | (go) tr' where "createClosedPrs_loop w owner g (pr # prs) d tr
                  = createClosedPrs_loop w owner g prs d tr'"
            "created_issue_titles tr' = created_issue_titles tr @ [historical_title pr]"
        unfolding t by blast
      then show ?thesis
      proof cases
        case stop
        show ?thesis unfolding stop by (intro exI [of _ 0]) simp
      next
        case fatal
        show ?thesis unfolding fatal(1) using merged_pr fatal(2) by (intro exI [of _ 1]) simp
      next
        case go
        from Cons [of tr'] obtain k where
          "created_issue_titles (snd (createClosedPrs_loop w owner g prs d tr'))
            = created_issue_titles tr'
              @ map historical_title (take k (filter (\<lambda>pr. PullRequest.State pr = ''MERGED'') prs))"
          by blast
        then show ?thesis unfolding go(1) using merged_pr go(2)
          by (intro exI [of _ "Suc k"]) simp
      qed
    qed
  qed
qed

subsection \<open>The sample inputs, evaluated\<close>

lemma sample_dry_run:
  "migrateRepos sample_env [''tools''] (sample_config\<lparr>dryRun := True\<rparr>) []
     = (Inr (),
        [BB_Repository_Get ''acme'' ''tools'',
         BB_ListUserPermissions ''acme'' ''tools'',
         BB_ListGroupPermissions ''acme'' ''tools'',
         OS_MkdirTemp ''acme-tools-*'',
         Git_CloneMirror ''git@bitbucket.org:acme/tools.git'' ''/tmp/acme-tools-1'',
         BB_PullRequests_Gets ''acme'' ''tools'' ''main''
           (''state IN ('' @ [CHR 0x22] @ ''MERGED'' @ [CHR 0x22] @ '', ''
              @ [CHR 0x22] @ ''OPEN'' @ [CHR 0x22] @ '')''),
         Git_RemoteAdd ''/tmp/acme-tools-1'' ''newOrigin''
           ''https://github.com/acme-org/tools.git''])"
  by code_simp

lemma sample_full_run:
  "length (snd (migrateRepos sample_env [''tools''] sample_config [])) = 19"
  "length (mutations (snd (migrateRepos sample_env [''tools''] sample_config []))) = 11"
  by code_simp+

lemma sample_createRepo:
  "createRepo sample_env sample_repo sample_config []
     = (Inr sample_ghRepo,
        [GH_Repositories_Create ''acme-org'' sample_ghRepo,
         GH_Repositories_Get ''acme-org'' ''tools''])"
  by (simp add: createRepo_def Let_def sample_ghRepo_def sample_config_def sample_env_def
      sample_repo_def eval_nat_numeral)

lemma sample_cleanTopic: "cleanTopic sample_env ''My Project'' = ''my-project''"
  by code_simp

lemma sample_getPrs:
  "getPrs sample_env ''acme'' ''tools'' ''main'' []
     = (Inr sample_prs,
        [BB_PullRequests_Gets ''acme'' ''tools'' ''main''
           (''state IN ('' @ [CHR 0x22] @ ''MERGED'' @ [CHR 0x22] @ '', ''
              @ [CHR 0x22] @ ''OPEN'' @ [CHR 0x22] @ '')'')])"
  by code_simp

lemma sample_unsorted:
  "decodePullRequests sample_env sample_response
     = Inr (Inr (sample_prs\<lparr>Values := [sample_merged_pr, sample_open_pr]\<rparr>))"
  by code_simp

lemma sample_pass_titles:
  "created_pr_titles (snd (migrateRepo sample_env ''tools'' sample_config []))
     = [''Historical Bitbucket PR #1: Add linter'']"
  "created_issue_titles (snd (migrateRepo sample_env ''tools'' sample_config []))
     = [''Historical Bitbucket PR #2: Fix build'']"
  by code_simp+





subsection \<open>Dry run\<close>

text \<open>
  Claim C1. When the dry-run flag is set, a run of \<open>migrateRepos\<close> over any list of
  repositories, in any environment and with any stages enabled, adds no mutating call
  to the trace: no permission is set at Bitbucket, nothing is pushed, and no
  repository, setting, topic list, custom property, pull request, issue or commit
  comment is created or edited at GitHub. The calls that remain are the reads, the
  clone, \<open>git remote add\<close> on the local clone and the operator's program.
\<close>

theorem dry_run_no_mutating_call:
  assumes "dryRun config"
  shows "mutations (snd (migrateRepos w repoList config tr)) = mutations tr"
  using assms by (rule migrateRepos_quiet)

text \<open>
  The sample run makes 19 calls, 11 of them mutating; the same run with the dry-run
  flag makes 7 calls, none of them mutating.
\<close>

theorem dry_run_no_mutating_call_witness:
  "dryRun (sample_config\<lparr>dryRun := True\<rparr>)
   \<and> length (snd (migrateRepos sample_env [''tools''] (sample_config\<lparr>dryRun := True\<rparr>) [])) = 7
   \<and> mutations (snd (migrateRepos sample_env [''tools''] (sample_config\<lparr>dryRun := True\<rparr>) []))
       = []
   \<and> length (mutations (snd (migrateRepos sample_env [''tools''] sample_config []))) = 11"
  using dry_run_no_mutating_call [of "sample_config\<lparr>dryRun := True\<rparr>" sample_env "[''tools'']" "[]"]
  by (simp add: sample_dry_run sample_full_run mutations_def [of "[]"] del: migrateRepos.simps)

subsection \<open>Repository identifiers\<close>

text \<open>
  Claim C2, as the code has it. \<open>parseRepos\<close> drops a line exactly when, trimmed of
  white space, it is empty or starts with \<open>#\<close>; every other line gives one identifier:
  the trimmed line with each of the six characters space, \<open>/\<close>, \<open>+\<close>, \<open>&\<close>, \<open>(\<close>, \<open>)\<close>
  replaced by \<open>-\<close>, every other character kept as it is, and the \<open>-\<close> at both ends
  stripped. So an identifier has no leading or trailing \<open>-\<close> and none of the six
  characters, but it keeps any other character that GitHub refuses, and it can be
  empty or start with \<open>#\<close> or with white space other than a space. The
  replace-and-strip step is idempotent and leaves alone a string that has none of the
  six characters and no \<open>-\<close> at its ends; an identifier that is non-empty, does not
  start with \<open>#\<close> and has no white space at its ends is returned unchanged when parsed
  again; and \<open>parseRepos\<close> returns the identifiers of the lines of the file, in order.
\<close>

theorem parseRepos_normalization:
  "cleanRepoName s
     = TrimByte (map (\<lambda>c. if c \<in> replaced_chars then CHR ''-'' else c) s) (CHR ''-'')
   \<and> (\<exists>i j. map (\<lambda>c. if c \<in> replaced_chars then CHR ''-'' else c) s
              = replicate i (CHR ''-'') @ cleanRepoName s @ replicate j (CHR ''-''))
   \<and> \<not> prefix ''-'' (cleanRepoName s) \<and> \<not> suffix ''-'' (cleanRepoName s)
   \<and> parseLine line
       = (if TrimSpace line = [] \<or> prefix ''#'' (TrimSpace line) then []
          else [cleanRepoName (TrimSpace line)])
   \<and> cleanRepoName (cleanRepoName s) = cleanRepoName s
   \<and> (set s \<inter> replaced_chars = {} \<and> \<not> prefix ''-'' s \<and> \<not> suffix ''-'' s
        \<longrightarrow> cleanRepoName s = s)
   \<and> (\<forall>r \<in> set (parseLine line).
         \<not> prefix ''-'' r \<and> \<not> suffix ''-'' r \<and> set r \<inter> replaced_chars = {})
   \<and> (parseLine line = [] \<longleftrightarrow> TrimSpace line = [] \<or> prefix ''#'' (TrimSpace line))
   \<and> (parseLine line = [r] \<and> r \<noteq> [] \<and> \<not> prefix ''#'' r \<and> TrimSpace r = r
        \<longrightarrow> parseLine r = [r])
   \<and> (path \<noteq> [] \<and> readFile (TrimSpace path) = Some data
        \<longrightarrow> parseRepos readFile path = Inr (concat (map parseLine (SplitLines data))))"
proof (intro conjI)
  show "cleanRepoName s
     = TrimByte (map (\<lambda>c. if c \<in> replaced_chars then CHR ''-'' else c) s) (CHR ''-'')"
    by (rule cleanRepoName_map)
  show "\<exists>i j. map (\<lambda>c. if c \<in> replaced_chars then CHR ''-'' else c) s
              = replicate i (CHR ''-'') @ cleanRepoName s @ replicate j (CHR ''-'')"
    unfolding cleanRepoName_map by (rule TrimByte_decomposition)
  show "\<not> prefix ''-'' (cleanRepoName s)"
    by (simp add: cleanRepoName_map TrimByte_no_prefix)
  show "\<not> suffix ''-'' (cleanRepoName s)"
    by (simp add: cleanRepoName_map TrimByte_no_suffix)
  show "parseLine line
       = (if TrimSpace line = [] \<or> prefix ''#'' (TrimSpace line) then []
          else [cleanRepoName (TrimSpace line)])"
    by (rule parseLine_eq)
  show "cleanRepoName (cleanRepoName s) = cleanRepoName s"
    by (rule cleanRepoName_idem)
  show "set s \<inter> replaced_chars = {} \<and> \<not> prefix ''-'' s \<and> \<not> suffix ''-'' s
        \<longrightarrow> cleanRepoName s = s"
    by (simp add: cleanRepoName_id)
  show "\<forall>r \<in> set (parseLine line).
         \<not> prefix ''-'' r \<and> \<not> suffix ''-'' r \<and> set r \<inter> replaced_chars = {}"
    by (simp add: parseLine_eq cleanRepoName_chars)
       (simp add: cleanRepoName_map TrimByte_no_prefix TrimByte_no_suffix)
  show "parseLine line = [] \<longleftrightarrow> TrimSpace line = [] \<or> prefix ''#'' (TrimSpace line)"
    by (simp add: parseLine_eq)
  show "parseLine line = [r] \<and> r \<noteq> [] \<and> \<not> prefix ''#'' r \<and> TrimSpace r = r
        \<longrightarrow> parseLine r = [r]"
  proof
    assume a: "parseLine line = [r] \<and> r \<noteq> [] \<and> \<not> prefix ''#'' r \<and> TrimSpace r = r"
    then have "r = cleanRepoName (TrimSpace line)"
      by (auto simp: parseLine_eq split: if_splits)
    then have "cleanRepoName r = r" by (simp add: cleanRepoName_idem)
    with a show "parseLine r = [r]" by (simp add: parseLine_eq)
  qed
  show "path \<noteq> [] \<and> readFile (TrimSpace path) = Some data
        \<longrightarrow> parseRepos readFile path = Inr (concat (map parseLine (SplitLines data)))"
    by (simp add: parseRepos_def parseRepos_loop_eq)
qed

theorem parseRepos_normalization_witness:
  "cleanRepoName ''a b'' = ''a-b''
   \<and> cleanRepoName ''a-b'' = ''a-b''
   \<and> cleanRepoName ''(a@b)'' = ''a@b''
   \<and> parseLine ''repo(4)'' = [''repo-4'']
   \<and> \<not> prefix ''-'' ''repo-4'' \<and> \<not> suffix ''-'' ''repo-4''
   \<and> set ''repo-4'' \<inter> replaced_chars = {}
   \<and> parseLine ''repo-4'' = [''repo-4'']
   \<and> parseRepos (\<lambda>p. if p = ''repos.txt'' then Some (''a/b'' @ [CHR 0x0A] @ ''#c'') else None)
        '' repos.txt''
       = Inr [''a-b'']"
proof -
  have p: "parseLine ''repo(4)'' = [''repo-4'']" by (simp add: parse_eval)
  have t: "TrimSpace ''repo-4'' = ''repo-4''" by (simp add: parse_eval)
  have f: "TrimSpace '' repos.txt'' = ''repos.txt''" by (simp add: parse_eval)
  have l: "parseLine ''a/b'' = [''a-b'']" "parseLine ''#c'' = []"
    "parseLine ''repo-4'' = [''repo-4'']"
    by (simp_all add: parse_eval)
  have c: "cleanRepoName ''a b'' = ''a-b''" "cleanRepoName ''a-b'' = ''a-b''"
    "cleanRepoName ''(a@b)'' = ''a@b''"
    by (simp_all add: parse_eval)
  show ?thesis
    using parseRepos_normalization [where s = "''a-b''" and line = "''repo(4)''"
        and r = "''repo-4''" and path = "'' repos.txt''"
        and readFile = "\<lambda>p. if p = ''repos.txt'' then Some (''a/b'' @ [CHR 0x0A] @ ''#c'') else None"
        and data = "''a/b'' @ [CHR 0x0A] @ ''#c''"]
    by (simp add: p t f l c replaced_chars_def suffix_to_prefix)
qed

text \<open>
  The claim as written fails: \<open>@\<close> is kept although GitHub does not allow it in a
  name; the identifier produced from the line \<open>-<TAB>x\<close> (a tab between \<open>-\<close> and \<open>x\<close>)
  is changed when it is parsed again, the one produced from \<open>-#x\<close> is dropped when it
  is parsed again, and the line \<open>()\<close> gives the empty identifier.
\<close>

theorem parseRepos_claim_counterexample:
  "parseRepos (\<lambda>p. Some ''a@b'') ''repos.txt'' = Inr [''a@b'']
   \<and> \<not> list_all github_name_char ''a@b''
   \<and> parseRepos (\<lambda>p. Some (''-'' @ [CHR 0x09] @ ''x'')) ''repos.txt'' = Inr [[CHR 0x09] @ ''x'']
   \<and> parseRepos (\<lambda>p. Some ([CHR 0x09] @ ''x'')) ''repos.txt'' = Inr [''x'']
   \<and> parseRepos (\<lambda>p. Some ''-#x'') ''repos.txt'' = Inr [''#x'']
   \<and> parseRepos (\<lambda>p. Some ''#x'') ''repos.txt'' = Inr []
   \<and> parseRepos (\<lambda>p. Some ''()'') ''repos.txt'' = Inr [[]]"
  by (simp add: parseRepos_def parseRepos_loop_eq github_name_char_def parse_eval)


subsection \<open>Decoding pull requests\<close>

text \<open>
  Claim C3, as the code has it. Decoding returns the error \<open>not a valid format\<close> when
  the response is not a mapping. No key of a record is required: the author, source
  and closed-by mappings are copied as they are, whatever keys they hold, so a record
  without \<open>display_name\<close> or without \<open>branch\<close>/\<open>name\<close> decodes successfully. The
  absence surfaces when a pass reads the key: the open-PR pass panics at an \<open>OPEN\<close>
  record whose author lacks \<open>display_name\<close> or whose source lacks \<open>branch\<close>/\<open>name\<close>, and
  the merged-PR pass panics at a \<open>MERGED\<close> record that lacks one of these or the
  \<open>display_name\<close> of who closed it, with or without dry run.
\<close>

theorem missing_keys_surface_at_use:
  "(\<not> is_map prsResponse \<longrightarrow>
      decodePullRequests w prsResponse = Inr (Inl (ErrorsNew ''not a valid format'')))
   \<and> decodePullRequest w
        (JObj [(''state'', JStr st), (''author'', JObj a), (''source'', JObj src),
               (''closed_by'', JObj cb)])
       = Inr (Inr (zero_PullRequest\<lparr>PullRequest.State := st, Author := a, Source := src,
                                     ClosedBy := cb\<rparr>))
   \<and> (PullRequest.State pr = ''OPEN''
        \<and> (displayName (Author pr) = None \<or> sourceBranchName (Source pr) = None)
      \<longrightarrow> migrateOpenPrs_loop w githubOwner ghRepo (pr # rest) d tr = (Inl GoPanic, tr))
   \<and> (PullRequest.State pr = ''MERGED''
        \<and> (displayName (Author pr) = None \<or> sourceBranchName (Source pr) = None
             \<or> displayName (ClosedBy pr) = None)
      \<longrightarrow> createClosedPrs_loop w githubOwner ghRepo (pr # rest) d tr = (Inl GoPanic, tr))"
proof (intro conjI impI)
  assume "\<not> is_map prsResponse"
  then show "decodePullRequests w prsResponse = Inr (Inl (ErrorsNew ''not a valid format''))"
    by (rule decode_not_map)
next
  show "decodePullRequest w
        (JObj [(''state'', JStr st), (''author'', JObj a), (''source'', JObj src),
               (''closed_by'', JObj cb)])
       = Inr (Inr (zero_PullRequest\<lparr>PullRequest.State := st, Author := a, Source := src,
                                     ClosedBy := cb\<rparr>))"
    by (rule decode_copies_maps)
next
  assume a: "PullRequest.State pr = ''OPEN''
        \<and> (displayName (Author pr) = None \<or> sourceBranchName (Source pr) = None)"
  then have "migrateOpenPrs_request w ghRepo pr tr = None"
    by (intro open_request_None) simp
  with a show "migrateOpenPrs_loop w githubOwner ghRepo (pr # rest) d tr = (Inl GoPanic, tr)"
    by simp
next
  assume a: "PullRequest.State pr = ''MERGED''
        \<and> (displayName (Author pr) = None \<or> sourceBranchName (Source pr) = None
             \<or> displayName (ClosedBy pr) = None)"
  then have "createClosedPrs_issue w pr = None"
    by (intro closed_issue_None) simp
  with a show "createClosedPrs_loop w githubOwner ghRepo (pr # rest) d tr = (Inl GoPanic, tr)"
    by simp
qed

theorem missing_keys_surface_at_use_witness:
  "decodePullRequests sample_env (JArr []) = Inr (Inl (ErrorsNew ''not a valid format''))
   \<and> migrateOpenPrs_loop sample_env ''acme-org'' sample_ghRepo
        [zero_PullRequest\<lparr>PullRequest.State := ''OPEN''\<rparr>, sample_open_pr] True []
       = (Inl GoPanic, [])
   \<and> createClosedPrs_loop sample_env ''acme-org'' sample_ghRepo
        [zero_PullRequest\<lparr>PullRequest.State := ''MERGED''\<rparr>, sample_merged_pr] True []
       = (Inl GoPanic, [])"
  using missing_keys_surface_at_use [of "JArr []" sample_env "[]" "[]" "[]" "[]"
            "zero_PullRequest\<lparr>PullRequest.State := ''OPEN''\<rparr>"
            "''acme-org''" sample_ghRepo "[sample_open_pr]" True "[]"]
        missing_keys_surface_at_use [of "JArr []" sample_env "[]" "[]" "[]" "[]"
            "zero_PullRequest\<lparr>PullRequest.State := ''MERGED''\<rparr>"
            "''acme-org''" sample_ghRepo "[sample_merged_pr]" True "[]"]
  by (simp add: zero_PullRequest_def displayName_def index_def)

text \<open>
  The claim as written fails: a list with one open record whose author and source
  mappings are empty decodes without an error, and the open-PR pass then panics.
\<close>

theorem missing_key_decodes_counterexample:
  "decodePullRequests sample_env
     (JObj [(''values'',
             JArr [JObj [(''id'', JNum 5), (''state'', JStr ''OPEN''), (''author'', JObj []),
                         (''source'', JObj [])]])])
     = Inr (Inr \<lparr>Size = 0, Page = 0, Pagelen = 0, Next = [], Previous = [],
                Values = [zero_PullRequest\<lparr>ID := 5, PullRequest.State := ''OPEN''\<rparr>]\<rparr>)
   \<and> migrateOpenPrs sample_env ''acme-org'' sample_ghRepo
        \<lparr>Size = 0, Page = 0, Pagelen = 0, Next = [], Previous = [],
         Values = [zero_PullRequest\<lparr>ID := 5, PullRequest.State := ''OPEN''\<rparr>]\<rparr> False []
       = (Inl GoPanic, [])"
  by code_simp

subsection \<open>Failures of the open-PR pass\<close>



subsection \<open>The repository descriptor\<close>

text \<open>
  Claim C5. For every source repository and every configuration, the descriptor that
  \<open>createRepo\<close> builds, and returns whenever it returns, has the configured
  private-visibility value as its visibility when the source repository is private,
  and \<open>public\<close> otherwise.
\<close>

theorem createRepo_visibility:
  "Visibility (createRepo_ghRepo w repo config)
     = (if Is_private repo then visibility config else ''public'')
   \<and> (createRepo w repo config tr = (Inr ghRepo, tr')
        \<longrightarrow> Visibility ghRepo = (if Is_private repo then visibility config else ''public''))"
proof (intro conjI impI)
  show v: "Visibility (createRepo_ghRepo w repo config)
     = (if Is_private repo then visibility config else ''public'')"
    by (simp add: createRepo_ghRepo_def)
  assume "createRepo w repo config tr = (Inr ghRepo, tr')"
  then have "ghRepo = createRepo_ghRepo w repo config" by (rule createRepo_returns)
  with v show "Visibility ghRepo = (if Is_private repo then visibility config else ''public'')"
    by simp
qed

theorem createRepo_visibility_witness:
  "createRepo sample_env sample_repo sample_config []
     = (Inr sample_ghRepo,
        [GH_Repositories_Create ''acme-org'' sample_ghRepo,
         GH_Repositories_Get ''acme-org'' ''tools''])
   \<and> Visibility sample_ghRepo = ''internal''
   \<and> Visibility (createRepo_ghRepo sample_env (sample_repo\<lparr>Is_private := False\<rparr>) sample_config)
       = ''public''"
  using createRepo_visibility [of sample_env sample_repo sample_config "[]" sample_ghRepo
      "[GH_Repositories_Create ''acme-org'' sample_ghRepo,
        GH_Repositories_Get ''acme-org'' ''tools'']"]
    createRepo_visibility [of sample_env "sample_repo\<lparr>Is_private := False\<rparr>" sample_config]
    sample_createRepo
  by (simp add: sample_repo_def sample_config_def)

subsection \<open>The order of the records\<close>

text \<open>
  Claim C6. Whenever \<open>getPrs\<close> returns, the records it returns are in non-decreasing
  order of their identifiers and are the decoded records, rearranged. These are the
  records both passes are fed: \<open>migrateRepo\<close> is \<open>migrateRepo_with\<close> at the two passes,
  and replacing, in \<open>migrateRepo_with\<close>, each pass by one that panics on records out of
  order changes nothing, for any two passes. Each pass goes through the records from
  the first to the last: the pull requests (issues) it creates are, in the order of
  the calls, those of the first so many \<open>OPEN\<close> (\<open>MERGED\<close>) records of the sequence.
\<close>

theorem prs_sorted_and_processed_in_order:
  "(getPrs w owner repo destinationBranch tr = (Inr prs, tr')
      \<longrightarrow> sorted (map ID (Values prs))
        \<and> (\<exists>response decoded.
              bbPullRequestsGets w tr' = Inr response
            \<and> decodePullRequests w response = Inr (Inr decoded)
            \<and> mset (Values prs) = mset (Values decoded)))
   \<and> migrateRepo = migrateRepo_with migrateOpenPrs createClosedPrs
   \<and> migrateRepo_with openPass closedPass w repoName config tr
       = migrateRepo_with (sortedOnly openPass) (sortedOnly closedPass) w repoName config tr
   \<and> (\<exists>k. created_pr_titles (snd (migrateOpenPrs w githubOwner ghRepo prs d tr))
          = created_pr_titles tr
            @ map historical_title
                (take k (filter (\<lambda>pr. PullRequest.State pr = ''OPEN'') (Values prs))))
   \<and> (\<exists>k. created_issue_titles (snd (createClosedPrs w githubOwner ghRepo prs d tr))
          = created_issue_titles tr
            @ map historical_title
                (take k (filter (\<lambda>pr. PullRequest.State pr = ''MERGED'') (Values prs))))"
proof (intro conjI impI)
  assume g: "getPrs w owner repo destinationBranch tr = (Inr prs, tr')"
  from getPrs_returns [OF g] show "sorted (map ID (Values prs))" by simp
  from getPrs_returns [OF g] show "\<exists>response decoded.
              bbPullRequestsGets w tr' = Inr response
            \<and> decodePullRequests w response = Inr (Inr decoded)
            \<and> mset (Values prs) = mset (Values decoded)" by simp
next
  show "migrateRepo = migrateRepo_with migrateOpenPrs createClosedPrs"
    by (rule migrateRepo_is_with)
next
  show "migrateRepo_with openPass closedPass w repoName config tr
       = migrateRepo_with (sortedOnly openPass) (sortedOnly closedPass) w repoName config tr"
    by (rule migrateRepo_with_sortedOnly)
next
  show "\<exists>k. created_pr_titles (snd (migrateOpenPrs w githubOwner ghRepo prs d tr))
          = created_pr_titles tr
            @ map historical_title
                (take k (filter (\<lambda>pr. PullRequest.State pr = ''OPEN'') (Values prs)))"
    unfolding migrateOpenPrs_def by (rule open_loop_order)
next
  show "\<exists>k. created_issue_titles (snd (createClosedPrs w githubOwner ghRepo prs d tr))
          = created_issue_titles tr
            @ map historical_title
                (take k (filter (\<lambda>pr. PullRequest.State pr = ''MERGED'') (Values prs)))"
    unfolding createClosedPrs_def by (rule closed_loop_order)
qed

theorem prs_sorted_and_processed_in_order_witness:
  "getPrs sample_env ''acme'' ''tools'' ''main'' []
     = (Inr sample_prs,
        [BB_PullRequests_Gets ''acme'' ''tools'' ''main''
           (''state IN ('' @ [CHR 0x22] @ ''MERGED'' @ [CHR 0x22] @ '', ''
              @ [CHR 0x22] @ ''OPEN'' @ [CHR 0x22] @ '')'')])
   \<and> decodePullRequests sample_env sample_response
       = Inr (Inr (sample_prs\<lparr>Values := [sample_merged_pr, sample_open_pr]\<rparr>))
   \<and> map ID [sample_merged_pr, sample_open_pr] = [2, 1]
   \<and> map ID (Values sample_prs) = [1, 2]
   \<and> sorted (map ID (Values sample_prs))
   \<and> created_pr_titles (snd (migrateRepo sample_env ''tools'' sample_config []))
       = [''Historical Bitbucket PR #1: Add linter'']
   \<and> created_issue_titles (snd (migrateRepo sample_env ''tools'' sample_config []))
       = [''Historical Bitbucket PR #2: Fix build'']"
  using prs_sorted_and_processed_in_order [where w = sample_env and owner = "''acme''" and repo = "''tools''"
        and destinationBranch = "''main''" and tr = "[]" and prs = sample_prs
        and tr' = "[BB_PullRequests_Gets ''acme'' ''tools'' ''main''
           (''state IN ('' @ [CHR 0x22] @ ''MERGED'' @ [CHR 0x22] @ '', ''
              @ [CHR 0x22] @ ''OPEN'' @ [CHR 0x22] @ '')'')]"]
    sample_getPrs sample_unsorted
  by (simp add: sample_pass_titles sample_prs_def sample_open_pr_def sample_merged_pr_def)

subsection \<open>Error entries\<close>

text \<open>
  Claim C7. For every entry whose \<open>type\<close> is the string \<open>error\<close>, \<open>decodePullRequest\<close>
  returns the error built by \<open>DecodeError\<close> and no record; when the entry embeds an
  error object with a string message (and a fields entry, if any, of the expected
  shape), that error carries exactly the message text. The error ends the decoding of
  the whole list.
\<close>

theorem error_entry_decode_error:
  assumes "index prMap ''type'' = JStr ''error''"
  shows "decodePullRequest w (JObj prMap) = Inr (Inl (DecodeError prMap))
     \<and> (index prMap ''error'' = JObj em \<and> fieldValue em ''Message'' = JStr msg
          \<and> ms_string_lists (fieldValue em ''Fields'') \<noteq> None
        \<longrightarrow> decodePullRequest w (JObj prMap) = Inr (Inl (ErrorsNew msg)))
     \<and> decodePullRequests_loop w (JObj prMap # rest) acc = Inr (Inl (DecodeError prMap))
     \<and> decodePullRequests w (JObj [(''values'', JArr (JObj prMap # rest))])
         = Inr (Inl (DecodeError prMap))"
  using assms
  by (auto simp: decodePullRequest_def DecodeError_def decodePullRequests_def index_def)

theorem error_entry_decode_error_witness:
  "decodePullRequest sample_env sample_error = Inr (Inl (ErrorsNew ''Repository not found''))
   \<and> decodePullRequests sample_env (JObj [(''values'', JArr [sample_error, sample_open])])
       = Inr (Inl (ErrorsNew ''Repository not found''))"
proof -
  have t: "index [(''type'', JStr ''error''),
                  (''error'', JObj [(''message'', JStr ''Repository not found'')])] ''type''
             = JStr ''error''"
    by (simp add: index_def)
  have d: "DecodeError [(''type'', JStr ''error''),
                        (''error'', JObj [(''message'', JStr ''Repository not found'')])]
             = ErrorsNew ''Repository not found''"
    by code_simp
  show ?thesis
    using error_entry_decode_error [OF t, of sample_env
        "[(''message'', JStr ''Repository not found'')]" "''Repository not found''"
        "[sample_open]" "[]"]
    by (simp add: sample_error_def d)
qed

subsection \<open>Dry run of the two passes\<close>

text \<open>
  Claim C8, as the code has it. With the dry-run flag set, a pass does not return at
  its first iteration whatever the record: it skips the records of another state, and
  at the first record of its own state (\<open>OPEN\<close> for the open-PR pass, \<open>MERGED\<close> for the
  merged-PR pass) it builds the payload first. If the keys the payload reads are
  present it then returns, with no call made and whatever records follow; if one is
  missing the run ends in a panic. A pass that finds no record of its own state
  returns with no call made.
\<close>

theorem dry_run_pass_stops_at_first_record:
  "((\<forall>p \<in> set pre. PullRequest.State p \<noteq> ''OPEN'') \<and> PullRequest.State pr = ''OPEN''
      \<longrightarrow> migrateOpenPrs_loop w githubOwner ghRepo (pre @ pr # post) True tr
            = (if keysPresent pr then (Inr (), tr) else (Inl GoPanic, tr)))
   \<and> ((\<forall>p \<in> set pre. PullRequest.State p \<noteq> ''OPEN'')
      \<longrightarrow> migrateOpenPrs_loop w githubOwner ghRepo pre True tr = (Inr (), tr))
   \<and> ((\<forall>p \<in> set pre. PullRequest.State p \<noteq> ''MERGED'') \<and> PullRequest.State pr = ''MERGED''
      \<longrightarrow> createClosedPrs_loop w githubOwner ghRepo (pre @ pr # post) True tr
            = (if closedKeysPresent pr then (Inr (), tr) else (Inl GoPanic, tr)))
   \<and> ((\<forall>p \<in> set pre. PullRequest.State p \<noteq> ''MERGED'')
      \<longrightarrow> createClosedPrs_loop w githubOwner ghRepo pre True tr = (Inr (), tr))"
proof (intro conjI impI)
  assume a: "(\<forall>p \<in> set pre. PullRequest.State p \<noteq> ''OPEN'') \<and> PullRequest.State pr = ''OPEN''"
  then have "migrateOpenPrs_loop w githubOwner ghRepo (pre @ pr # post) True tr
               = migrateOpenPrs_loop w githubOwner ghRepo (pr # post) True tr"
    by (intro open_loop_skip) simp
  with a show "migrateOpenPrs_loop w githubOwner ghRepo (pre @ pr # post) True tr
            = (if keysPresent pr then (Inr (), tr) else (Inl GoPanic, tr))"
    using open_request_None_iff [of w ghRepo pr tr] by (auto split: option.splits)
next
  assume "\<forall>p \<in> set pre. PullRequest.State p \<noteq> ''OPEN''"
  then show "migrateOpenPrs_loop w githubOwner ghRepo pre True tr = (Inr (), tr)"
    using open_loop_skip [of pre w githubOwner ghRepo "[]" True tr] by simp
next
  assume a: "(\<forall>p \<in> set pre. PullRequest.State p \<noteq> ''MERGED'') \<and> PullRequest.State pr = ''MERGED''"
  then have "createClosedPrs_loop w githubOwner ghRepo (pre @ pr # post) True tr
               = createClosedPrs_loop w githubOwner ghRepo (pr # post) True tr"
    by (intro closed_loop_skip) simp
  with a show "createClosedPrs_loop w githubOwner ghRepo (pre @ pr # post) True tr
            = (if closedKeysPresent pr then (Inr (), tr) else (Inl GoPanic, tr))"
    using closed_issue_None_iff [of w pr] by (auto split: option.splits)
next
  assume "\<forall>p \<in> set pre. PullRequest.State p \<noteq> ''MERGED''"
  then show "createClosedPrs_loop w githubOwner ghRepo pre True tr = (Inr (), tr)"
    using closed_loop_skip [of pre w githubOwner ghRepo "[]" True tr] by simp
qed

theorem dry_run_pass_stops_at_first_record_witness:
  "migrateOpenPrs_loop sample_env ''acme-org'' sample_ghRepo
     [sample_merged_pr, sample_open_pr, zero_PullRequest\<lparr>PullRequest.State := ''OPEN''\<rparr>] True []
     = (Inr (), [])
   \<and> migrateOpenPrs_loop sample_env ''acme-org'' sample_ghRepo [sample_merged_pr] True []
     = (Inr (), [])
   \<and> createClosedPrs_loop sample_env ''acme-org'' sample_ghRepo
     [sample_open_pr, sample_merged_pr, zero_PullRequest\<lparr>PullRequest.State := ''MERGED''\<rparr>]
     True []
     = (Inr (), [])
   \<and> createClosedPrs_loop sample_env ''acme-org'' sample_ghRepo [sample_open_pr] True []
     = (Inr (), [])"
proof -
  have k: "keysPresent sample_open_pr" "closedKeysPresent sample_merged_pr"
    by (simp_all add: keysPresent_def closedKeysPresent_def sample_open_pr_def
        sample_merged_pr_def displayName_def sourceBranchName_def index_def zero_PullRequest_def)
  have s: "PullRequest.State sample_open_pr = ''OPEN''"
    "PullRequest.State sample_merged_pr = ''MERGED''"
    by (simp_all add: sample_open_pr_def sample_merged_pr_def)
  show ?thesis
    using dry_run_pass_stops_at_first_record [where pre = "[sample_merged_pr]"
          and pr = sample_open_pr
          and post = "[zero_PullRequest\<lparr>PullRequest.State := ''OPEN''\<rparr>]"
          and w = sample_env and githubOwner = "''acme-org''" and ghRepo = sample_ghRepo
          and tr = "[]"]
      dry_run_pass_stops_at_first_record [where pre = "[sample_open_pr]"
          and pr = sample_merged_pr
          and post = "[zero_PullRequest\<lparr>PullRequest.State := ''MERGED''\<rparr>]"
          and w = sample_env and githubOwner = "''acme-org''" and ghRepo = sample_ghRepo
          and tr = "[]"]
    by (simp add: k s del: migrateOpenPrs_loop.simps createClosedPrs_loop.simps)
qed

text \<open>
  The claim as written fails: under dry run the open-PR pass panics at a first record
  that is \<open>OPEN\<close> with no author, where the claim has it return; and it does not stop
  at a first record that is \<open>MERGED\<close> but goes on to the record after it. The merged-PR
  pass panics in the same way.
\<close>

theorem dry_run_first_iteration_counterexample:
  "migrateOpenPrs_loop sample_env ''acme-org'' sample_ghRepo
     [zero_PullRequest\<lparr>PullRequest.State := ''OPEN''\<rparr>] True []
     = (Inl GoPanic, [])
   \<and> migrateOpenPrs_loop sample_env ''acme-org'' sample_ghRepo [sample_merged_pr] True []
     = (Inr (), [])
   \<and> migrateOpenPrs_loop sample_env ''acme-org'' sample_ghRepo
     [sample_merged_pr, zero_PullRequest\<lparr>PullRequest.State := ''OPEN''\<rparr>] True []
     = (Inl GoPanic, [])
   \<and> createClosedPrs_loop sample_env ''acme-org'' sample_ghRepo
     [zero_PullRequest\<lparr>PullRequest.State := ''MERGED''\<rparr>] True []
     = (Inl GoPanic, [])"
  by code_simp

subsection \<open>Topics\<close>

text \<open>
  Claim C9. For every source repository, the topics of the descriptor that
  \<open>createRepo\<close> builds, and returns whenever it returns, are the marker
  \<open>migratedFromBitbucket\<close> and the source project name after \<open>cleanTopic\<close>, which lowers
  the case of the name and then replaces every space by \<open>-\<close>.
\<close>

theorem createRepo_topics:
  "Topics (createRepo_ghRepo w repo config)
     = [''migratedFromBitbucket'', cleanTopic w (Project_Name repo)]
   \<and> cleanTopic w name
     = map (\<lambda>c. if c = CHR '' '' then CHR ''-'' else c) (ToLower (unicodeLower w) name)
   \<and> (createRepo w repo config tr = (Inr ghRepo, tr')
        \<longrightarrow> Topics ghRepo = [''migratedFromBitbucket'', cleanTopic w (Project_Name repo)])"
proof (intro conjI impI)
  show t: "Topics (createRepo_ghRepo w repo config)
     = [''migratedFromBitbucket'', cleanTopic w (Project_Name repo)]"
    by (simp add: createRepo_ghRepo_def)
  show "cleanTopic w name
     = map (\<lambda>c. if c = CHR '' '' then CHR ''-'' else c) (ToLower (unicodeLower w) name)"
    by (rule cleanTopic_eq)
  assume "createRepo w repo config tr = (Inr ghRepo, tr')"
  then have "ghRepo = createRepo_ghRepo w repo config" by (rule createRepo_returns)
  with t show "Topics ghRepo = [''migratedFromBitbucket'', cleanTopic w (Project_Name repo)]"
    by simp
qed

theorem createRepo_topics_witness:
  "createRepo sample_env sample_repo (sample_config\<lparr>dryRun := True\<rparr>) []
     = (Inr (createRepo_ghRepo sample_env sample_repo (sample_config\<lparr>dryRun := True\<rparr>)), [])
   \<and> Topics (createRepo_ghRepo sample_env sample_repo (sample_config\<lparr>dryRun := True\<rparr>))
       = [''migratedFromBitbucket'', ''my-project'']"
  using createRepo_topics [of sample_env sample_repo "sample_config\<lparr>dryRun := True\<rparr>"
      "''My Project''" "[]"
      "createRepo_ghRepo sample_env sample_repo (sample_config\<lparr>dryRun := True\<rparr>)" "[]"]
    sample_cleanTopic
  by (simp add: createRepo_def sample_config_def sample_repo_def)

subsection \<open>The custom-property call\<close>

text \<open>
  Claim C10. \<open>updateCustomProperties\<close> never aborts: it returns normally on every
  input, having made the call exactly when an owner is given and the run is not a dry
  run. What the environment answers to that call is never read: replacing the answer
  by any other changes neither the result and trace of \<open>updateCustomProperties\<close> nor
  those of a whole run of \<open>migrateRepos\<close>.
\<close>

theorem custom_properties_error_discarded:
  "fst (updateCustomProperties w githubOrg ghRepo d projectName tr) = Inr ()
   \<and> snd (updateCustomProperties w githubOrg ghRepo d projectName tr)
       = (if githubOrg = [] \<or> d then tr
          else tr @ [GH_Repositories_CreateOrUpdateCustomProperties githubOrg (Name ghRepo)
                       [(''bitbucket'', ''true''), (''project'', cleanTopic w projectName)]])
   \<and> updateCustomProperties (w\<lparr>ghCreateOrUpdateCustomProperties := answer\<rparr>)
         githubOrg ghRepo d projectName tr
       = updateCustomProperties w githubOrg ghRepo d projectName tr
   \<and> migrateRepos (w\<lparr>ghCreateOrUpdateCustomProperties := answer\<rparr>) repoList config tr
       = migrateRepos w repoList config tr"
  by (simp add: migrateRepos_answer) (simp add: updateCustomProperties_def)

end
